theory Spec2Isabelle
  imports Main "HOL-Library.AList"
begin

section \<open>Strings, JSON values and errors\<close>

text \<open>
  A JavaScript string is a sequence of UTF-16 code units. The markers of the tool-call
  protocol and the labels of the tool catalogue are outside ASCII, and the regular
  expression classes and \<open>trim\<close> are defined on code units, so a string is a list of
  code units, each a natural number. \<open>str\<close> turns an ASCII literal into such a string.
\<close>

type_synonym jschar = nat
type_synonym jsstring = "jschar list"

definition str :: "string \<Rightarrow> jsstring" where
  "str s = map of_char s"

lemma str_inject [simp]: "(str a = str b) = (a = b)"
  by (simp add: str_def inj_map_eq_map [OF inj_of_char])

lemma str_Nil [simp]: "(str a = []) = (a = [])"
  by (simp add: str_def)

lemma str_Nil2 [simp]: "([] = str a) = (a = [])"
  by (auto simp add: str_def)


text \<open>
  \<open>String(n)\<close> for a non-negative integer below \<open>10^21\<close>: its decimal digits. It is
  used as it is where the number is bounded by what the program has counted: the bound of
  the recursion when the depth has reached it, a number of placeholders that were found.
\<close>

fun digits :: "nat \<Rightarrow> jsstring" where
  "digits n = (if n < 10 then [48 + n] else digits (n div 10) @ [48 + n mod 10])"

declare digits.simps [simp del]

text \<open>
  \<open>String(n)\<close> for a number that is a non-negative integer: its decimal digits below
  \<open>10^21\<close>, and from there on the exponential notation of the language, which is the
  parameter \<open>sci\<close>.
\<close>

definition number_string :: "(nat \<Rightarrow> jsstring) \<Rightarrow> nat \<Rightarrow> jsstring" where
  "number_string sci n = (if n < 10 ^ 21 then digits n else sci n)"

text \<open>\<open>Array.prototype.join\<close> on a list of strings.\<close>

fun join :: "jsstring \<Rightarrow> jsstring list \<Rightarrow> jsstring" where
  "join sep [] = []"
| "join sep [x] = x"
| "join sep (x # y # ys) = x @ sep @ join sep (y # ys)"

text \<open>
  \<open>s.indexOf(p, start)\<close>: the first index at or after \<open>start\<close> where \<open>p\<close> occurs; the
  empty string occurs at every index up to the length of \<open>s\<close>.
\<close>

definition indexOf :: "jsstring \<Rightarrow> jsstring \<Rightarrow> nat \<Rightarrow> nat option" where
  "indexOf s p start =
     List.find (\<lambda>i. take (length p) (drop i s) = p) [min start (length s)..<Suc (length s)]"

definition js_includes :: "jsstring \<Rightarrow> jsstring \<Rightarrow> bool" where
  "js_includes s p = (indexOf s p 0 \<noteq> None)"

text \<open>\<open>s.split('\n')\<close> for the separator \<open>c\<close>: the result is never empty.\<close>

fun split_on :: "jschar \<Rightarrow> jsstring \<Rightarrow> jsstring list" where
  "split_on c [] = [[]]"
| "split_on c (x # xs) =
     (if x = c then [] # split_on c xs
      else (case split_on c xs of [] \<Rightarrow> [[x]] | y # ys \<Rightarrow> (x # y) # ys))"

datatype json =
    JNull
  | JBool bool
  | JNum int
  | JStr jsstring
  | JArr "json list"
  | JObj "(jsstring \<times> json) list"

text \<open>
  The plugin manifest (\<open>PluginManifest\<close>, types/index.ts), with the fields the runtime
  reads. \<open>id\<close>, \<open>name\<close> and \<open>type\<close> are declared as required strings, so a missing one
  is the empty string, the only value of the declared type that \<open>!x\<close> rejects. The type
  has six values; \<open>OtherType\<close> is any other string, which the \<open>switch\<close> of
  \<open>registerPlugin\<close> sends to its \<open>default\<close> branch. \<open>serverId\<close>, \<open>placeholders\<close> and
  \<open>module\<close> are the untyped properties the runtime reads through \<open>as any\<close>.
\<close>

datatype PluginType =
    Direct | Distributed | Preprocessor | Service | Static | Internal | OtherType jsstring

record InvocationCommand =
  command :: "jsstring option"
  description :: "jsstring option"
  example :: "jsstring option"

record Capabilities =
  invocationCommands :: "InvocationCommand list option"

record PluginManifest =
  m_id :: jsstring
  m_name :: jsstring
  m_type :: PluginType
  m_capabilities :: "Capabilities option"
  m_serverId :: "jsstring option"
  m_placeholders :: "(jsstring \<times> jsstring) list option"
  m_module :: "nat option"

text \<open>The error codes of \<open>VCPErrorCode\<close> (types/index.ts).\<close>

datatype VCPErrorCode =
    PROTOCOL_PARSE_ERROR | INVALID_TOOL_REQUEST | INVALID_PARAMETER_FORMAT
  | TOOL_NOT_FOUND | TOOL_EXECUTION_FAILED | TOOL_TIMEOUT | INVALID_TOOL_ARGS
  | VARIABLE_RESOLVE_ERROR | CIRCULAR_DEPENDENCY | MAX_RECURSION_DEPTH | PROVIDER_NOT_FOUND
  | DISTRIBUTED_CONNECTION_ERROR | DISTRIBUTED_TIMEOUT | DISTRIBUTED_AUTH_FAILED
  | PLUGIN_LOAD_ERROR | PLUGIN_INIT_ERROR | PLUGIN_NOT_FOUND | INVALID_PLUGIN_MANIFEST
  | WEBSOCKET_CONNECTION_ERROR | WEBSOCKET_AUTH_FAILED | WEBSOCKET_MESSAGE_ERROR
  | INVALID_CONFIG | MISSING_REQUIRED_CONFIG

text \<open>
  The values that are thrown: a \<open>VCPError\<close> with its code, message and details, its
  subclass \<open>CircularDependencyError\<close> (whose code is always \<open>CIRCULAR_DEPENDENCY\<close>),
  and a plain \<open>Error\<close> with a message only. A detail is a JSON value, another error
  or a manifest.
\<close>

datatype js_error =
    VCPError VCPErrorCode jsstring "(jsstring \<times> detail) list"
  | CircularDependencyError jsstring "(jsstring \<times> detail) list"
  | PlainError jsstring
and detail =
    Val json
  | Err js_error
  | Man PluginManifest

abbreviation SVal :: "jsstring \<Rightarrow> detail" where
  "SVal s \<equiv> Val (JStr s)"

abbreviation NVal :: "int \<Rightarrow> detail" where
  "NVal n \<equiv> Val (JNum n)"


text \<open>\<open>error instanceof CircularDependencyError\<close>.\<close>

fun is_circular :: "js_error \<Rightarrow> bool" where
  "is_circular (CircularDependencyError m d) = True"
| "is_circular (VCPError c m d) = False"
| "is_circular (PlainError m) = False"


section \<open>The distributed server channel (DistributedServerChannelSDK.ts)\<close>

datatype ReadyState = CONNECTING | OPEN | CLOSING | CLOSED

record DistributedServerInfo =
  serverId :: jsstring
  ws :: nat
  tools :: "jsstring list"
  serverName :: jsstring
  connectedAt :: nat
  lastActivity :: nat

text \<open>
  A pending request holds the \<open>resolve\<close>/\<open>reject\<close> pair of the promise that
  \<open>executeDistributedTool\<close> returned (here the number of that promise) and the handle of
  its timer. As in the source, it does not record the session it was sent to.
\<close>

record PendingToolRequest =
  requestId :: jsstring
  promise :: nat
  timeout :: nat
  createdAt :: nat

text \<open>What the callback of a timer armed by \<open>executeDistributedTool\<close> has captured.\<close>

record timeout_closure =
  tc_serverId :: jsstring
  tc_toolName :: jsstring
  tc_requestId :: jsstring
  tc_timeout :: nat
  tc_promise :: nat

datatype settlement = Resolved "json option" | Rejected js_error

text \<open>The \<open>data\<close> object of a \<open>tool_result\<close> frame; an absent field is \<open>None\<close>.\<close>

record tool_result_data =
  d_requestId :: "jsstring option"
  d_status :: "jsstring option"
  d_result :: "json option"
  d_error :: "json option"

datatype channel_event =
    Server_connected jsstring
  | Tools_unregistered jsstring "jsstring list"
  | Async_tool_result jsstring "tool_result_data option"

datatype frame =
    Connection_ack jsstring
  | Execute_tool jsstring jsstring json

text \<open>
  The state of the channel: the two maps of the class (a \<open>Map\<close> is an association list
  in insertion order), the sockets with their \<open>readyState\<close> and the \<open>serverId\<close>
  property the channel puts on them, the armed timers, and the effects in the order they
  happen: the events emitted, the frames sent, and the calls of \<open>resolve\<close> and
  \<open>reject\<close>. A promise is settled by the first call for it.
\<close>

record channel =
  distributedServers :: "(jsstring \<times> DistributedServerInfo) list"
  pendingRequests :: "(jsstring \<times> PendingToolRequest) list"
  readyState :: "nat \<Rightarrow> ReadyState"
  ws_serverId :: "nat \<Rightarrow> jsstring option"
  timers :: "(nat \<times> timeout_closure) list"
  next_handle :: nat
  emitted :: "channel_event list"
  sent :: "(nat \<times> frame) list"
  settled :: "(nat \<times> settlement) list"

definition promise_state :: "channel \<Rightarrow> nat \<Rightarrow> settlement option" where
  "promise_state c p = map_of (settled c) p"

definition new_channel :: channel where
  "new_channel = \<lparr> distributedServers = [], pendingRequests = [],
     readyState = (\<lambda>w. CONNECTING), ws_serverId = (\<lambda>w. None), timers = [], next_handle = 0,
     emitted = [], sent = [], settled = [] \<rparr>"

text \<open>A value is truthy as a request or server id when it is present and not empty.\<close>

fun truthy :: "jsstring option \<Rightarrow> bool" where
  "truthy None = False"
| "truthy (Some s) = (s \<noteq> [])"

definition sendToClient :: "nat \<Rightarrow> frame \<Rightarrow> channel \<Rightarrow> channel" where
  "sendToClient w m c = (if readyState c w = OPEN then c \<lparr> sent := sent c @ [(w, m)] \<rparr> else c)"

definition clearTimeout :: "nat \<Rightarrow> channel \<Rightarrow> channel" where
  "clearTimeout t c = c \<lparr> timers := AList.delete t (timers c) \<rparr>"

definition call_resolve :: "nat \<Rightarrow> json option \<Rightarrow> channel \<Rightarrow> channel" where
  "call_resolve p v c = c \<lparr> settled := settled c @ [(p, Resolved v)] \<rparr>"

definition call_reject :: "nat \<Rightarrow> js_error \<Rightarrow> channel \<Rightarrow> channel" where
  "call_reject p e c = c \<lparr> settled := settled c @ [(p, Rejected e)] \<rparr>"

definition emit :: "channel_event \<Rightarrow> channel \<Rightarrow> channel" where
  "emit e c = c \<lparr> emitted := emitted c @ [e] \<rparr>"

text \<open>
  \<open>onConnectionEstablished\<close>: the generated server id \<open>sid\<close> and the clock \<open>now\<close> are
  inputs.
\<close>

definition onConnectionEstablished :: "nat \<Rightarrow> jsstring \<Rightarrow> nat \<Rightarrow> channel \<Rightarrow> channel" where
  "onConnectionEstablished w sid now c =
     (let c1 = c \<lparr> ws_serverId := (ws_serverId c)(w := Some sid) \<rparr>;
          info = \<lparr> serverId = sid, ws = w, tools = [], serverName = sid,
                   connectedAt = now, lastActivity = now \<rparr>;
          c2 = c1 \<lparr> distributedServers := AList.update sid info (distributedServers c1) \<rparr>;
          c3 = sendToClient w (Connection_ack sid) c2
      in emit (Server_connected sid) c3)"

text \<open>
  \<open>handleToolResult\<close>. \<open>status\<close> and \<open>error\<close> are taken out of the frame and not used
  again: a frame with a known request id resolves the promise with \<open>result\<close>.
\<close>

definition handleToolResult :: "jsstring \<Rightarrow> tool_result_data option \<Rightarrow> channel \<Rightarrow> channel" where
  "handleToolResult sid md c =
     (let rid = (case md of None \<Rightarrow> None | Some d \<Rightarrow> d_requestId d);
          result = (case md of None \<Rightarrow> None | Some d \<Rightarrow> d_result d)
      in if \<not> truthy rid then emit (Async_tool_result sid md) c
         else (case map_of (pendingRequests c) (the rid) of
                 None \<Rightarrow> c
               | Some pending \<Rightarrow>
                   (let c1 = clearTimeout (timeout pending) c;
                        c2 = c1 \<lparr> pendingRequests := AList.delete (the rid) (pendingRequests c1) \<rparr>
                    in call_resolve (promise pending) result c2)))"

text \<open>
  The callback of the timer that \<open>executeDistributedTool\<close> arms. The timeout is a number
  of milliseconds that is a non-negative integer.
\<close>

definition timeout_callback :: "(nat \<Rightarrow> jsstring) \<Rightarrow> timeout_closure \<Rightarrow> channel \<Rightarrow> channel" where
  "timeout_callback sci k c =
     (let c1 = c \<lparr> pendingRequests := AList.delete (tc_requestId k) (pendingRequests c) \<rparr>
      in call_reject (tc_promise k)
           (VCPError DISTRIBUTED_TIMEOUT
              (str ''Tool execution timeout after '' @ number_string sci (tc_timeout k) @ str ''ms'')
              [(str ''serverId'', SVal (tc_serverId k)),
               (str ''toolName'', SVal (tc_toolName k)),
               (str ''requestId'', SVal (tc_requestId k)),
               (str ''timeout'', NVal (int (tc_timeout k)))]) c1)"

text \<open>
  The timer \<open>t\<close> goes off: an armed timer is disarmed and its callback runs; a timer that
  was cleared does nothing.
\<close>

definition fire_timer :: "(nat \<Rightarrow> jsstring) \<Rightarrow> nat \<Rightarrow> channel \<Rightarrow> channel" where
  "fire_timer sci t c =
     (case map_of (timers c) t of
        None \<Rightarrow> c
      | Some k \<Rightarrow> timeout_callback sci k (c \<lparr> timers := AList.delete t (timers c) \<rparr>))"

text \<open>
  \<open>executeDistributedTool\<close>: the generated request id \<open>rid\<close> and the clock are inputs.
  The result is the error thrown before a promise exists, or the number of the promise
  returned. The timer is armed first, then the pending request is stored, then the frame
  is sent.
\<close>

definition executeDistributedTool ::
  "jsstring \<Rightarrow> jsstring \<Rightarrow> json \<Rightarrow> nat \<Rightarrow> jsstring \<Rightarrow> nat \<Rightarrow> channel \<Rightarrow> (js_error + nat) \<times> channel" where
  "executeDistributedTool sid toolName args tmo rid now c =
     (case map_of (distributedServers c) sid of
        None \<Rightarrow>
          (Inl (VCPError DISTRIBUTED_CONNECTION_ERROR
                  (str ''Distributed server '' @ sid @ str '' not connected'')
                  [(str ''serverId'', SVal sid)]), c)
      | Some info \<Rightarrow>
          if readyState c (ws info) \<noteq> OPEN then
            (Inl (VCPError DISTRIBUTED_CONNECTION_ERROR
                    (str ''Distributed server '' @ sid @ str '' connection not open'')
                    [(str ''serverId'', SVal sid),
                     (str ''readyState'',
                        NVal (case readyState c (ws info) of
                                CONNECTING \<Rightarrow> 0 | OPEN \<Rightarrow> 1 | CLOSING \<Rightarrow> 2 | CLOSED \<Rightarrow> 3))]), c)
          else
            (let p = next_handle c;
                 t = Suc (next_handle c);
                 c1 = c \<lparr> next_handle := Suc (Suc (next_handle c)) \<rparr>;
                 c2 = c1 \<lparr> timers := AList.update t
                             \<lparr> tc_serverId = sid, tc_toolName = toolName, tc_requestId = rid,
                               tc_timeout = tmo, tc_promise = p \<rparr> (timers c1) \<rparr>;
                 c3 = c2 \<lparr> pendingRequests := AList.update rid
                             \<lparr> requestId = rid, promise = p, timeout = t, createdAt = now \<rparr>
                             (pendingRequests c2) \<rparr>;
                 c4 = sendToClient (ws info) (Execute_tool rid toolName args) c3
             in (Inr p, c4)))"

text \<open>
  \<open>cleanupPendingRequests\<close>: \<open>forEach\<close> visits every entry of the map once, in insertion
  order, also when the callback deletes the entry it is at. The server id is used for
  the message only.
\<close>

definition cleanup_step :: "jsstring \<Rightarrow> channel \<Rightarrow> jsstring \<times> PendingToolRequest \<Rightarrow> channel" where
  "cleanup_step sid c e =
     (let c1 = clearTimeout (timeout (snd e)) c;
          c2 = call_reject (promise (snd e))
                 (PlainError (str ''Server '' @ sid @ str '' disconnected'')) c1
      in c2 \<lparr> pendingRequests := AList.delete (fst e) (pendingRequests c2) \<rparr>)"

definition cleanupPendingRequests :: "jsstring \<Rightarrow> channel \<Rightarrow> channel" where
  "cleanupPendingRequests sid c = foldl (cleanup_step sid) c (pendingRequests c)"

definition onConnectionClosed :: "nat \<Rightarrow> channel \<Rightarrow> channel" where
  "onConnectionClosed w c =
     (if truthy (ws_serverId c w) then
        (let sid = the (ws_serverId c w);
             c1 = (case map_of (distributedServers c) sid of
                     None \<Rightarrow> c
                   | Some info \<Rightarrow>
                       (let c0 = (if tools info \<noteq> [] then emit (Tools_unregistered sid (tools info)) c
                                  else c)
                        in c0 \<lparr> distributedServers := AList.delete sid (distributedServers c0) \<rparr>))
         in cleanupPendingRequests sid c1)
      else c)"


text \<open>
  A scenario: two sessions \<open>dist-A\<close> (socket 1) and \<open>dist-B\<close> (socket 2) on open
  sockets, one call of tool \<open>Slow\<close> on \<open>dist-B\<close> with a timeout of 50 ms and the request id
  \<open>req-1\<close>, and a \<open>tool_result\<close> frame for it that reports an error.
\<close>

definition two_sessions :: channel where
  "two_sessions =
     onConnectionEstablished 2 (str ''dist-B'') 0
       (onConnectionEstablished 1 (str ''dist-A'') 0 (new_channel \<lparr> readyState := (\<lambda>w. OPEN) \<rparr>))"

definition busy_channel :: channel where
  "busy_channel =
     snd (executeDistributedTool (str ''dist-B'') (str ''Slow'') (JObj []) 50 (str ''req-1'') 0
            two_sessions)"

definition error_frame :: tool_result_data where
  "error_frame = \<lparr> d_requestId = Some (str ''req-1''), d_status = Some (str ''error''),
     d_result = None, d_error = Some (JStr (str ''boom'')) \<rparr>"


text \<open>
  What happens on the channel, one action at a time: a socket connects, a \<open>tool_result\<close>
  frame comes in on a session, \<open>executeDistributedTool\<close> is called, a socket closes, a
  timer goes off. These are all the places where the class reads or writes the pending
  requests, the timers and the promises; the handlers of the other frames
  (\<open>register_tools\<close>, \<open>unregister_tools\<close>, \<open>report_ip\<close>, \<open>heartbeat\<close>) write to the
  entry of the session only, and are not actions here.
\<close>

datatype channel_action =
    Connect nat jsstring nat
  | ToolResult jsstring "tool_result_data option"
  | Execute jsstring jsstring json nat jsstring nat
  | Close nat
  | Fire nat

fun act :: "(nat \<Rightarrow> jsstring) \<Rightarrow> channel \<Rightarrow> channel_action \<Rightarrow> channel" where
  "act sci c (Connect w sid now) = onConnectionEstablished w sid now c"
| "act sci c (ToolResult sid md) = handleToolResult sid md c"
| "act sci c (Execute sid toolName args tmo rid now) =
     snd (executeDistributedTool sid toolName args tmo rid now c)"
| "act sci c (Close w) = onConnectionClosed w c"
| "act sci c (Fire t) = fire_timer sci t c"


text \<open>
  Promises and timers are new objects when they are made. Here they are numbers taken from
  \<open>next_handle\<close>, so the numbers in use are below it.
\<close>

definition handles_fresh :: "channel \<Rightarrow> bool" where
  "handles_fresh c =
     (list_all (\<lambda>e. timeout (snd e) < next_handle c \<and> promise (snd e) < next_handle c)
        (pendingRequests c)
      \<and> list_all (\<lambda>k. tc_promise (snd k) < next_handle c) (timers c)
      \<and> list_all (\<lambda>s. fst s < next_handle c) (settled c))"





subsection \<open>Properties of the channel\<close>

lemma cleanup_fold_settled:
  "settled (foldl (cleanup_step sid) c es) =
     settled c @ map (\<lambda>e. (promise (snd e),
        Rejected (PlainError (str ''Server '' @ sid @ str '' disconnected'')))) es"
  by (induction es arbitrary: c)
     (simp_all add: cleanup_step_def call_reject_def clearTimeout_def Let_def)

lemma cleanup_fold_pending:
  "pendingRequests (foldl (cleanup_step sid) c es) =
     filter (\<lambda>q. fst q \<notin> fst ` set es) (pendingRequests c)"
proof (induction es arbitrary: c)
  case Nil
  show ?case by simp
next
  case (Cons e es)
  have "pendingRequests (cleanup_step sid c e) = filter (\<lambda>q. fst q \<noteq> fst e) (pendingRequests c)"
    by (simp add: cleanup_step_def call_reject_def clearTimeout_def Let_def AList.delete_eq
        case_prod_unfold eq_commute)
  then show ?case using Cons.IH [of "cleanup_step sid c e"]
    by (auto intro: filter_cong)
qed

lemma cleanup_fold_timers:
  "timers (foldl (cleanup_step sid) c es) =
     filter (\<lambda>q. fst q \<notin> (\<lambda>e. timeout (snd e)) ` set es) (timers c)"
proof (induction es arbitrary: c)
  case Nil
  show ?case by simp
next
  case (Cons e es)
  have "timers (cleanup_step sid c e) = filter (\<lambda>q. fst q \<noteq> timeout (snd e)) (timers c)"
    by (simp add: cleanup_step_def call_reject_def clearTimeout_def Let_def AList.delete_eq
        case_prod_unfold eq_commute)
  then show ?case using Cons.IH [of "cleanup_step sid c e"]
    by (auto intro: filter_cong)
qed

lemma cleanup_fold_servers:
  "distributedServers (foldl (cleanup_step sid) c es) = distributedServers c"
  by (induction es arbitrary: c)
     (simp_all add: cleanup_step_def call_reject_def clearTimeout_def Let_def)

lemma closed_fields:
  assumes "ws_serverId c w = Some sid" "sid \<noteq> []"
  shows "\<exists>c1. onConnectionClosed w c = cleanupPendingRequests sid c1
            \<and> pendingRequests c1 = pendingRequests c \<and> settled c1 = settled c \<and> timers c1 = timers c"
  using assms
  by (auto simp add: onConnectionClosed_def Let_def emit_def split: option.splits)

text \<open>
  Claim C9. When the socket of a session closes, \<open>onConnectionClosed\<close> empties the table of
  pending requests: every entry, whatever session it was sent to, has its timer cleared
  and its promise rejected with a plain \<open>Error\<close> whose message names the server that
  disconnected (not a \<open>VCPError\<close> with a distributed-connection code).
\<close>

theorem close_rejects_all_pending:
  assumes "ws_serverId c w = Some sid" and "sid \<noteq> []"
  shows "pendingRequests (onConnectionClosed w c) = []
       \<and> settled (onConnectionClosed w c) =
           settled c @ map (\<lambda>e. (promise (snd e),
              Rejected (PlainError (str ''Server '' @ sid @ str '' disconnected''))))
             (pendingRequests c)
       \<and> (\<forall>e \<in> set (pendingRequests c).
            map_of (timers (onConnectionClosed w c)) (timeout (snd e)) = None)"
proof -
  from closed_fields [OF assms] obtain c1 where
    c1: "onConnectionClosed w c = cleanupPendingRequests sid c1"
        "pendingRequests c1 = pendingRequests c" "settled c1 = settled c" "timers c1 = timers c"
    by blast
  have p: "pendingRequests (onConnectionClosed w c) = []"
    by (simp add: c1 cleanupPendingRequests_def cleanup_fold_pending filter_empty_conv)
  have s: "settled (onConnectionClosed w c) =
           settled c @ map (\<lambda>e. (promise (snd e),
              Rejected (PlainError (str ''Server '' @ sid @ str '' disconnected''))))
             (pendingRequests c)"
    by (simp add: c1 cleanupPendingRequests_def cleanup_fold_settled)
  have t: "\<forall>e \<in> set (pendingRequests c).
            map_of (timers (onConnectionClosed w c)) (timeout (snd e)) = None"
  proof
    fix e assume e: "e \<in> set (pendingRequests c)"
    have "timeout (snd e) \<in> (\<lambda>e. timeout (snd e)) ` set (pendingRequests c)"
      using e by (rule imageI)
    then show "map_of (timers (onConnectionClosed w c)) (timeout (snd e)) = None"
      by (simp add: c1 cleanupPendingRequests_def cleanup_fold_timers map_of_eq_None_iff
          image_iff)
  qed
  from p s t show ?thesis by blast
qed

lemma busy_pending:
  "pendingRequests busy_channel =
     [(str ''req-1'', \<lparr> requestId = str ''req-1'', promise = 0, timeout = 1, createdAt = 0 \<rparr>)]"
  by (simp add: busy_channel_def two_sessions_def executeDistributedTool_def
      onConnectionEstablished_def new_channel_def sendToClient_def emit_def Let_def str_def)

lemma busy_settled: "settled busy_channel = []"
  by (simp add: busy_channel_def two_sessions_def executeDistributedTool_def
      onConnectionEstablished_def new_channel_def sendToClient_def emit_def Let_def str_def)

lemma busy_timers:
  "timers busy_channel = [(1, \<lparr> tc_serverId = str ''dist-B'', tc_toolName = str ''Slow'',
      tc_requestId = str ''req-1'', tc_timeout = 50, tc_promise = 0 \<rparr>)]"
  by (simp add: busy_channel_def two_sessions_def executeDistributedTool_def
      onConnectionEstablished_def new_channel_def sendToClient_def emit_def Let_def str_def)

lemma busy_socket: "ws_serverId busy_channel 1 = Some (str ''dist-A'')"
  by (simp add: busy_channel_def two_sessions_def executeDistributedTool_def
      onConnectionEstablished_def new_channel_def sendToClient_def emit_def Let_def str_def)

text \<open>
  In the scenario the request was sent to \<open>dist-B\<close>; the socket of \<open>dist-A\<close> closes and
  the request is rejected all the same.
\<close>

theorem close_rejects_all_pending_witness:
  "ws_serverId busy_channel 1 = Some (str ''dist-A'')
   \<and> map_of (timers busy_channel) 1 = Some \<lparr> tc_serverId = str ''dist-B'',
        tc_toolName = str ''Slow'', tc_requestId = str ''req-1'', tc_timeout = 50, tc_promise = 0 \<rparr>
   \<and> pendingRequests (onConnectionClosed 1 busy_channel) = []
   \<and> settled (onConnectionClosed 1 busy_channel) =
        [(0, Rejected (PlainError (str ''Server dist-A disconnected'')))]"
proof -
  have a: "ws_serverId busy_channel 1 = Some (str ''dist-A'')" by (rule busy_socket)
  have b: "str ''dist-A'' \<noteq> []" by simp
  have m: "str ''Server '' @ str ''dist-A'' @ str '' disconnected'' = str ''Server dist-A disconnected''"
    by (simp add: str_def)
  from close_rejects_all_pending [OF a b] a show ?thesis
    by (simp add: busy_pending busy_settled busy_timers m)
qed

text \<open>
  Claim C1. A \<open>tool_result\<close> frame with the id of a pending request removes the request and
  clears its timer. The claim says that a status other than \<open>success\<close> rejects the promise
  with the frame's error; the code resolves it with the frame's \<open>result\<close> whatever the
  status is. Here the frame of the scenario, with status \<open>error\<close> and no result, resolves
  promise 0 with \<open>undefined\<close>.
\<close>

theorem tool_result_error_frame_resolves:
  "map_of (pendingRequests busy_channel) (str ''req-1'') =
     Some \<lparr> requestId = str ''req-1'', promise = 0, timeout = 1, createdAt = 0 \<rparr>
   \<and> d_status error_frame = Some (str ''error'')
   \<and> settled (handleToolResult (str ''dist-B'') (Some error_frame) busy_channel) =
        [(0, Resolved None)]
   \<and> promise_state (handleToolResult (str ''dist-B'') (Some error_frame) busy_channel) 0 \<noteq>
        Some (Rejected (PlainError (str ''boom'')))"
  by (simp add: handleToolResult_def busy_pending busy_settled busy_timers error_frame_def
      promise_state_def call_resolve_def clearTimeout_def Let_def)

text \<open>In general: the status and the error of the frame have no part in the outcome.\<close>

lemma handleToolResult_known:
  assumes "d_requestId d = Some rid" "rid \<noteq> []" "map_of (pendingRequests c) rid = Some pending"
  shows "settled (handleToolResult sid (Some d) c) = settled c @ [(promise pending, Resolved (d_result d))]"
    and "map_of (pendingRequests (handleToolResult sid (Some d) c)) rid = None"
    and "map_of (timers (handleToolResult sid (Some d) c)) (timeout pending) = None"
  using assms
  by (simp_all add: handleToolResult_def call_resolve_def clearTimeout_def Let_def
      delete_conv')

lemma set_update_subset: "set (AList.update k v xs) \<subseteq> insert (k, v) (set xs)"
  by (induction xs) auto

lemma set_delete_subset: "set (AList.delete k xs) \<subseteq> set xs"
  by (auto simp add: AList.delete_eq)









text \<open>The numbers in use stay below \<open>next_handle\<close> whatever happens on the channel.\<close>

lemma handles_fresh_new: "handles_fresh (new_channel \<lparr> readyState := r \<rparr>)"
  by (simp add: handles_fresh_def new_channel_def)

lemma handles_fresh_cleanup:
  assumes "handles_fresh c"
  shows "handles_fresh (cleanupPendingRequests sid c)"
proof -
  have n: "next_handle (foldl (cleanup_step sid) c' es) = next_handle c'" for c' es
    by (induction es arbitrary: c')
       (simp_all add: cleanup_step_def call_reject_def clearTimeout_def Let_def)
  show ?thesis using assms
    by (auto simp add: handles_fresh_def cleanupPendingRequests_def cleanup_fold_settled
        cleanup_fold_pending cleanup_fold_timers n list_all_iff)
qed

lemma handles_fresh_act:
  assumes "handles_fresh c"
  shows "handles_fresh (act sci c a)"
proof (cases a)
  case (Connect w sid now)
  then show ?thesis using assms
    by (simp add: handles_fresh_def onConnectionEstablished_def sendToClient_def emit_def Let_def)
next
  case (ToolResult sid md)
  have "handles_fresh (handleToolResult sid md c)"
  proof (cases "truthy (case md of None \<Rightarrow> None | Some d \<Rightarrow> d_requestId d)")
    case False
    then show ?thesis using assms by (simp add: handleToolResult_def Let_def emit_def handles_fresh_def)
  next
    case True
    show ?thesis
    proof (cases "map_of (pendingRequests c) (the (case md of None \<Rightarrow> None | Some d \<Rightarrow> d_requestId d))")
      case None
      then show ?thesis using assms True by (simp add: handleToolResult_def Let_def)
    next
      case (Some pending)
      then have "(the (case md of None \<Rightarrow> None | Some d \<Rightarrow> d_requestId d), pending)
                   \<in> set (pendingRequests c)" by (rule map_of_SomeD)
      with assms have "promise pending < next_handle c"
        by (auto simp add: handles_fresh_def list_all_iff)
      then show ?thesis using assms True Some
          set_delete_subset [of "the (case md of None \<Rightarrow> None | Some d \<Rightarrow> d_requestId d)" "pendingRequests c"]
          set_delete_subset [of "timeout pending" "timers c"]
        by (auto simp add: handleToolResult_def Let_def clearTimeout_def call_resolve_def
            handles_fresh_def list_all_iff)
    qed
  qed
  then show ?thesis using ToolResult by simp
next
  case (Execute sid toolName args tmo rid now)
  have "handles_fresh (snd (executeDistributedTool sid toolName args tmo rid now c))"
  proof (cases "\<exists>info. map_of (distributedServers c) sid = Some info \<and> readyState c (ws info) = OPEN")
    case False
    then have "snd (executeDistributedTool sid toolName args tmo rid now c) = c"
      by (auto simp add: executeDistributedTool_def split: option.splits)
    then show ?thesis using assms by simp
  next
    case True
    then obtain info where i: "map_of (distributedServers c) sid = Some info"
        "readyState c (ws info) = OPEN" by blast
    let ?k = "\<lparr> tc_serverId = sid, tc_toolName = toolName, tc_requestId = rid,
                 tc_timeout = tmo, tc_promise = next_handle c \<rparr>"
    let ?e = "\<lparr> requestId = rid, promise = next_handle c, timeout = Suc (next_handle c),
                 createdAt = now \<rparr>"
    have s: "snd (executeDistributedTool sid toolName args tmo rid now c) =
        c \<lparr> next_handle := Suc (Suc (next_handle c)),
            timers := AList.update (Suc (next_handle c)) ?k (timers c),
            pendingRequests := AList.update rid ?e (pendingRequests c),
            sent := sent c @ [(ws info, Execute_tool rid toolName args)] \<rparr>"
      using i by (simp add: executeDistributedTool_def Let_def sendToClient_def)
    show ?thesis unfolding s using assms
        set_update_subset [of rid ?e "pendingRequests c"]
        set_update_subset [of "Suc (next_handle c)" ?k "timers c"]
      by (fastforce simp add: handles_fresh_def list_all_iff)
  qed
  then show ?thesis using Execute by simp
next
  case (Close w)
  have "handles_fresh (onConnectionClosed w c)"
  proof (cases "truthy (ws_serverId c w)")
    case False
    then show ?thesis using assms by (simp add: onConnectionClosed_def)
  next
    case True
    let ?sid = "the (ws_serverId c w)"
    let ?c1 = "case map_of (distributedServers c) ?sid of
                 None \<Rightarrow> c
               | Some info \<Rightarrow>
                   (let c0 = (if tools info \<noteq> [] then emit (Tools_unregistered ?sid (tools info)) c
                              else c)
                    in c0 \<lparr> distributedServers := AList.delete ?sid (distributedServers c0) \<rparr>)"
    have "handles_fresh ?c1" using assms
      by (auto simp add: handles_fresh_def emit_def Let_def split: option.splits)
    then have "handles_fresh (cleanupPendingRequests ?sid ?c1)" by (rule handles_fresh_cleanup)
    then show ?thesis using True by (simp add: onConnectionClosed_def Let_def)
  qed
  then show ?thesis using Close by simp
next
  case (Fire h)
  have "handles_fresh (fire_timer sci h c)"
  proof (cases "map_of (timers c) h")
    case None
    then show ?thesis using assms by (simp add: fire_timer_def)
  next
    case (Some k')
    then have "(h, k') \<in> set (timers c)" by (rule map_of_SomeD)
    with assms have "tc_promise k' < next_handle c" by (auto simp add: handles_fresh_def list_all_iff)
    then show ?thesis using assms Some set_delete_subset [of "tc_requestId k'" "pendingRequests c"]
        set_delete_subset [of h "timers c"]
      by (auto simp add: fire_timer_def timeout_callback_def call_reject_def Let_def
          handles_fresh_def list_all_iff)
  qed
  then show ?thesis using Fire by simp
qed

lemma handles_fresh_acts: "handles_fresh c \<Longrightarrow> handles_fresh (foldl (act sci) c acts)"
  by (induction acts arbitrary: c) (simp_all add: handles_fresh_act)

lemma handles_fresh_reachable:
  "handles_fresh (foldl (act sci) (new_channel \<lparr> readyState := r \<rparr>) acts)"
  using handles_fresh_new by (rule handles_fresh_acts)








section \<open>The plugin runtime (PluginRuntime.ts)\<close>

datatype runtime_event = Plugin_registered PluginManifest

record runtime =
  plugins :: "(jsstring \<times> PluginManifest) list"
  distributedTools :: "(jsstring \<times> PluginManifest) list"
  individualPluginDescriptions :: "(jsstring \<times> jsstring) list"
  messagePreprocessors :: "(jsstring \<times> PluginManifest) list"
  preprocessorOrder :: "jsstring list"
  serviceModules :: "(jsstring \<times> PluginManifest \<times> nat option) list"
  staticPlaceholderValues :: "(jsstring \<times> jsstring) list"
  rt_emitted :: "runtime_event list"

definition new_runtime :: runtime where
  "new_runtime = \<lparr> plugins = [], distributedTools = [], individualPluginDescriptions = [],
     messagePreprocessors = [], preprocessorOrder = [], serviceModules = [],
     staticPlaceholderValues = [], rt_emitted = [] \<rparr>"

text \<open>
  The labels of the catalogue are Chinese words: \<open>label_command\<close> is U+547D U+4EE4
  (``command''), \<open>label_example\<close> is U+8C03 U+7528 U+793A U+4F8B (``call example'') and
  \<open>label_cloud\<close> is U+4E91 U+7AEF (``cloud'').
\<close>

definition label_command :: jsstring where
  "label_command = [0x547D, 0x4EE4]"

definition label_example :: jsstring where
  "label_example = [0x8C03, 0x7528, 0x793A, 0x4F8B]"

definition label_cloud :: jsstring where
  "label_cloud = [0x4E91, 0x7AEF]"

text \<open>Every line of a text indented by four spaces.\<close>

definition indent :: "jsstring \<Rightarrow> jsstring" where
  "indent t = join [10] (map (\<lambda>line. str ''    '' @ line) (split_on 10 t))"

definition render_command :: "PluginManifest \<Rightarrow> InvocationCommand \<Rightarrow> jsstring" where
  "render_command p cmd =
     str ''- '' @ m_name p @ str '' ('' @ m_id p @ str '') - '' @ label_command @ str '': ''
       @ (if truthy (command cmd) then the (command cmd) else str ''N/A'') @ str '':'' @ [10]
       @ indent (the (description cmd))
       @ (if truthy (example cmd)
          then [10] @ str ''  '' @ label_example @ str '':'' @ [10] @ indent (the (example cmd))
          else [])"

text \<open>The description of one plugin, when \<open>rebuildVCPDescriptions\<close> stores one.\<close>

definition plugin_description :: "PluginManifest \<Rightarrow> jsstring option" where
  "plugin_description p =
     (case m_capabilities p of
        None \<Rightarrow> None
      | Some caps \<Rightarrow>
          (case invocationCommands caps of
             None \<Rightarrow> None
           | Some cmds \<Rightarrow>
               if cmds = [] then None
               else (let ds = map (render_command p) (filter (\<lambda>c. truthy (description c)) cmds)
                     in if ds = [] then None else Some (join [10, 10] ds))))"

definition describe_step ::
  "(jsstring \<times> jsstring) list \<Rightarrow> PluginManifest \<Rightarrow> (jsstring \<times> jsstring) list" where
  "describe_step acc p =
     (case plugin_description p of
        None \<Rightarrow> acc
      | Some d \<Rightarrow> AList.update (str ''VCP'' @ m_id p) d acc)"

definition rebuildVCPDescriptions :: "runtime \<Rightarrow> runtime" where
  "rebuildVCPDescriptions rt =
     rt \<lparr> individualPluginDescriptions := foldl describe_step [] (map snd (plugins rt)) \<rparr>"

definition validateManifest :: "PluginManifest \<Rightarrow> js_error option" where
  "validateManifest m =
     (if m_id m = [] then
        Some (VCPError INVALID_PLUGIN_MANIFEST
                (str ''Plugin manifest missing required field: id'') [(str ''manifest'', Man m)])
      else if m_name m = [] then
        Some (VCPError INVALID_PLUGIN_MANIFEST
                (str ''Plugin manifest missing required field: name'') [(str ''manifest'', Man m)])
      else if m_type m = OtherType [] then
        Some (VCPError INVALID_PLUGIN_MANIFEST
                (str ''Plugin manifest missing required field: type'') [(str ''manifest'', Man m)])
      else None)"

definition registerDistributedPlugin :: "PluginManifest \<Rightarrow> runtime \<Rightarrow> runtime" where
  "registerDistributedPlugin m rt =
     (case m_capabilities m of
        None \<Rightarrow> rt
      | Some caps \<Rightarrow>
          (case invocationCommands caps of
             None \<Rightarrow> rt
           | Some cmds \<Rightarrow> rt \<lparr> distributedTools := AList.update (m_id m) m (distributedTools rt) \<rparr>))"

definition registerPreprocessorPlugin :: "PluginManifest \<Rightarrow> runtime \<Rightarrow> runtime" where
  "registerPreprocessorPlugin m rt =
     rt \<lparr> messagePreprocessors := AList.update (m_id m) m (messagePreprocessors rt),
          preprocessorOrder := preprocessorOrder rt @ [m_id m] \<rparr>"

definition registerServicePlugin :: "PluginManifest \<Rightarrow> runtime \<Rightarrow> runtime" where
  "registerServicePlugin m rt =
     rt \<lparr> serviceModules := AList.update (m_id m) (m, m_module m) (serviceModules rt) \<rparr>"

definition registerStaticPlugin :: "PluginManifest \<Rightarrow> runtime \<Rightarrow> runtime" where
  "registerStaticPlugin m rt =
     (case m_placeholders m of
        None \<Rightarrow> rt
      | Some kvs \<Rightarrow>
          rt \<lparr> staticPlaceholderValues :=
                 foldl (\<lambda>acc kv. AList.update (fst kv) (snd kv) acc) (staticPlaceholderValues rt) kvs \<rparr>)"

text \<open>The \<open>switch\<close> of \<open>registerPlugin\<close> on the type of the manifest.\<close>

definition register_by_type :: "PluginManifest \<Rightarrow> runtime \<Rightarrow> js_error + runtime" where
  "register_by_type m rt =
     (case m_type m of
        Distributed \<Rightarrow> Inr (registerDistributedPlugin m rt)
      | Direct \<Rightarrow> Inr rt
      | Preprocessor \<Rightarrow> Inr (registerPreprocessorPlugin m rt)
      | Service \<Rightarrow> Inr (registerServicePlugin m rt)
      | Static \<Rightarrow> Inr (registerStaticPlugin m rt)
      | Internal \<Rightarrow> Inr rt
      | OtherType t \<Rightarrow>
          Inl (VCPError INVALID_PLUGIN_MANIFEST (str ''Unknown plugin type: '' @ t)
                 [(str ''manifest'', Man m)]))"

text \<open>
  \<open>registerPlugin\<close>: every error is caught and thrown again as a \<open>PLUGIN_LOAD_ERROR\<close>;
  the runtime is then as it was, since the two places that throw come before any change.
\<close>

definition registerPlugin :: "PluginManifest \<Rightarrow> runtime \<Rightarrow> js_error + runtime" where
  "registerPlugin m rt =
     (case (case validateManifest m of Some e \<Rightarrow> Inl e | None \<Rightarrow> register_by_type m rt) of
        Inl e \<Rightarrow>
          Inl (VCPError PLUGIN_LOAD_ERROR (str ''Failed to register plugin: '' @ m_id m)
                 [(str ''error'', Err e), (str ''manifest'', Man m)])
      | Inr rt1 \<Rightarrow>
          (let rt2 = rt1 \<lparr> plugins := AList.update (m_id m) m (plugins rt1) \<rparr>;
               rt3 = rebuildVCPDescriptions rt2
           in Inr (rt3 \<lparr> rt_emitted := rt_emitted rt3 @ [Plugin_registered m] \<rparr>)))"

text \<open>
  \<open>registerDistributedTools\<close>: one step for each manifest of the list, then one rebuild
  of the descriptions. No event is emitted.
\<close>

definition register_tool_step :: "jsstring \<Rightarrow> runtime \<Rightarrow> PluginManifest \<Rightarrow> runtime" where
  "register_tool_step sid rt t =
     (if m_name t = [] \<or> m_id t = [] then rt
      else if map_of (plugins rt) (m_id t) \<noteq> None then rt
      else (let dm = t \<lparr> m_name := str ''['' @ label_cloud @ str ''] '' @ m_name t,
                          m_type := Distributed, m_serverId := Some sid \<rparr>
            in rt \<lparr> distributedTools := AList.update (m_id t) dm (distributedTools rt),
                    plugins := AList.update (m_id t) dm (plugins rt) \<rparr>))"

definition registerDistributedTools :: "jsstring \<Rightarrow> PluginManifest list \<Rightarrow> runtime \<Rightarrow> runtime" where
  "registerDistributedTools sid ts rt = rebuildVCPDescriptions (foldl (register_tool_step sid) rt ts)"

text \<open>\<open>getToolDescriptions\<close> hands out a copy of the descriptions.\<close>

definition getToolDescriptions :: "runtime \<Rightarrow> (jsstring \<times> jsstring) list" where
  "getToolDescriptions rt = individualPluginDescriptions rt"

text \<open>The plugin of scenario S4, as a plugin of type \<open>direct\<close>.\<close>

definition sum_commands :: Capabilities where
  "sum_commands = \<lparr> invocationCommands = Some [\<lparr> command = Some (str ''add''),
     description = Some (str ''adds two numbers''), example = Some (str ''add 1 2'') \<rparr>] \<rparr>"

definition sum_plugin :: "PluginType \<Rightarrow> PluginManifest" where
  "sum_plugin ty = \<lparr> m_id = str ''Sum'', m_name = str ''Sum'', m_type = ty,
     m_capabilities = Some sum_commands, m_serverId = None, m_placeholders = None,
     m_module = None \<rparr>"

definition sum_description :: jsstring where
  "sum_description = str ''- Sum (Sum) - '' @ label_command @ str '': add:'' @ [10]
     @ str ''    adds two numbers'' @ [10] @ str ''  '' @ label_example @ str '':'' @ [10]
     @ str ''    add 1 2''"


definition sum_runtime :: runtime where
  "sum_runtime = \<lparr> plugins = [(str ''Sum'', sum_plugin Direct)], distributedTools = [],
     individualPluginDescriptions = [(str ''VCPSum'', sum_description)],
     messagePreprocessors = [], preprocessorOrder = [], serviceModules = [],
     staticPlaceholderValues = [], rt_emitted = [Plugin_registered (sum_plugin Direct)] \<rparr>"

fun known_type :: "PluginType \<Rightarrow> bool" where
  "known_type (OtherType t) = False"
| "known_type Direct = True"
| "known_type Distributed = True"
| "known_type Preprocessor = True"
| "known_type Service = True"
| "known_type Static = True"
| "known_type Internal = True"

subsection \<open>Properties of the runtime\<close>

lemma js_includes_iff: "js_includes s p \<longleftrightarrow> (\<exists>xs ys. s = xs @ p @ ys)"
proof
  assume "js_includes s p"
  then obtain i where "List.find (\<lambda>i. take (length p) (drop i s) = p) [0..<Suc (length s)] = Some i"
    by (auto simp add: js_includes_def indexOf_def)
  then have "take (length p) (drop i s) = p"
    by (auto simp add: find_Some_iff)
  then have "s = take i s @ p @ drop (length p) (drop i s)"
    by (metis append_take_drop_id)
  then show "\<exists>xs ys. s = xs @ p @ ys" by blast
next
  assume "\<exists>xs ys. s = xs @ p @ ys"
  then obtain xs ys where s: "s = xs @ p @ ys" by blast
  have "length xs \<in> set [0..<Suc (length s)]" by (simp add: s)
  moreover have "take (length p) (drop (length xs) s) = p" by (simp add: s)
  ultimately have "List.find (\<lambda>i. take (length p) (drop i s) = p) [0..<Suc (length s)] \<noteq> None"
    unfolding find_None_iff by blast
  then show "js_includes s p" by (simp add: js_includes_def indexOf_def)
qed

lemma sum_rendered:
  assumes "m_id m = str ''Sum''" "m_name m = str ''Sum''" "m_capabilities m = Some sum_commands"
  shows "plugin_description m = Some sum_description"
  using assms
  by (simp add: plugin_description_def sum_commands_def render_command_def indent_def
      sum_description_def Let_def str_def)

lemma describe_fold_other:
  "\<forall>p \<in> set ps. m_id p \<noteq> k \<Longrightarrow>
     map_of (foldl describe_step acc ps) (str ''VCP'' @ k) = map_of acc (str ''VCP'' @ k)"
proof (induction ps arbitrary: acc)
  case Nil
  show ?case by simp
next
  case (Cons p ps)
  have "map_of (describe_step acc p) (str ''VCP'' @ k) = map_of acc (str ''VCP'' @ k)"
    using Cons.prems by (auto simp add: describe_step_def update_conv' split: option.splits)
  then show ?case using Cons by simp
qed

lemma describe_fold_unique:
  "distinct (map m_id ps) \<Longrightarrow> p \<in> set ps \<Longrightarrow> plugin_description p = Some d \<Longrightarrow>
     map_of (foldl describe_step acc ps) (str ''VCP'' @ m_id p) = Some d"
proof (induction ps arbitrary: acc)
  case Nil
  then show ?case by simp
next
  case (Cons q ps)
  show ?case
  proof (cases "p = q")
    case True
    have o: "\<forall>r \<in> set ps. m_id r \<noteq> m_id p" using Cons.prems(1) True by (auto simp add: image_iff)
    have "map_of (describe_step acc q) (str ''VCP'' @ m_id p) = Some d"
      using True Cons.prems(3) by (simp add: describe_step_def update_conv')
    then show ?thesis using describe_fold_other [OF o] by simp
  next
    case False
    then have "p \<in> set ps" using Cons.prems(2) by simp
    then show ?thesis using Cons by simp
  qed
qed

lemma set_update_cases:
  "e \<in> set (AList.update k v al) \<Longrightarrow> e = (k, v) \<or> e \<in> set al"
  by (induction al) (auto split: if_splits)

lemma sum_registered_fresh: "registerPlugin (sum_plugin Direct) new_runtime = Inr sum_runtime"
proof -
  have f: "m_id (sum_plugin Direct) = str ''Sum''" "m_name (sum_plugin Direct) = str ''Sum''"
    "m_type (sum_plugin Direct) = Direct" "m_capabilities (sum_plugin Direct) = Some sum_commands"
    by (simp_all add: sum_plugin_def)
  have p: "plugin_description (sum_plugin Direct) = Some sum_description"
    by (rule sum_rendered) (simp_all add: f)
  have k: "str ''VCP'' @ str ''Sum'' = str ''VCPSum''" by (simp add: str_def)
  show ?thesis
    by (simp add: registerPlugin_def validateManifest_def register_by_type_def
        rebuildVCPDescriptions_def describe_step_def f p k Let_def new_runtime_def sum_runtime_def)
qed

lemma register_by_type_plugins:
  "register_by_type m rt = Inr rt1 \<Longrightarrow> plugins rt1 = plugins rt"
  by (auto simp add: register_by_type_def registerDistributedPlugin_def
      registerPreprocessorPlugin_def registerServicePlugin_def registerStaticPlugin_def
      split: PluginType.splits option.splits)

lemma register_by_type_known:
  "known_type (m_type m) \<Longrightarrow> \<exists>rt1. register_by_type m rt = Inr rt1"
  by (cases "m_type m") (simp_all add: register_by_type_def)

lemma registerPlugin_known:
  assumes "m_id m \<noteq> []" "m_name m \<noteq> []" "known_type (m_type m)"
  shows "\<exists>rt'. registerPlugin m rt = Inr rt'
           \<and> plugins rt' = AList.update (m_id m) m (plugins rt)
           \<and> individualPluginDescriptions rt' =
               foldl describe_step [] (map snd (AList.update (m_id m) m (plugins rt)))"
proof -
  from register_by_type_known [OF assms(3)] obtain rt1 where r: "register_by_type m rt = Inr rt1"
    by blast
  have v: "validateManifest m = None"
    using assms by (auto simp add: validateManifest_def)
  show ?thesis
    using r v register_by_type_plugins [OF r]
    by (simp add: registerPlugin_def rebuildVCPDescriptions_def Let_def)
qed

text \<open>
  Claim C2, as the code has it. After \<open>registerPlugin\<close> of a plugin with id \<open>Sum\<close>, name
  \<open>Sum\<close>, one of the six plugin types and the one command \<open>add\<close>, in a runtime whose
  plugin map is a map keyed by plugin id, the catalogue entry \<open>VCPSum\<close> is
  \<open>sum_description\<close>. It contains \<open>adds two numbers\<close> and \<open>add 1 2\<close>, and its first line is
  \<open>- Sum (Sum) - \<close>, the label U+547D U+4EE4, and \<open>: add:\<close>.
\<close>

theorem catalog_entry_after_register:
  assumes "distinct (map fst (plugins rt))" and "\<forall>e \<in> set (plugins rt). m_id (snd e) = fst e"
      and "m_id m = str ''Sum''" and "m_name m = str ''Sum''"
      and "m_capabilities m = Some sum_commands" and "known_type (m_type m)"
  shows "\<exists>rt'. registerPlugin m rt = Inr rt'
           \<and> map_of (getToolDescriptions rt') (str ''VCPSum'') = Some sum_description
           \<and> js_includes sum_description (str ''- Sum (Sum) - '' @ label_command @ str '': add:'')
           \<and> js_includes sum_description (str ''adds two numbers'')
           \<and> js_includes sum_description (str ''add 1 2'')"
proof -
  let ?ps = "AList.update (m_id m) m (plugins rt)"
  from registerPlugin_known [of m rt] assms obtain rt' where
    r: "registerPlugin m rt = Inr rt'"
       "individualPluginDescriptions rt' = foldl describe_step [] (map snd ?ps)"
    by auto
  have ids: "\<forall>e \<in> set ?ps. m_id (snd e) = fst e"
    using assms(2) by (auto dest!: set_update_cases)
  have "map fst ?ps = map m_id (map snd ?ps)" using ids by simp
  then have d: "distinct (map m_id (map snd ?ps))"
    using distinct_update [OF assms(1), of "m_id m" m] by metis
  have "map_of ?ps (m_id m) = Some m" by (simp add: update_conv')
  then have "(m_id m, m) \<in> set ?ps" by (rule map_of_SomeD)
  then have i: "m \<in> set (map snd ?ps)" by force
  have "map_of (foldl describe_step [] (map snd ?ps)) (str ''VCP'' @ m_id m) = Some sum_description"
    using describe_fold_unique [OF d i sum_rendered [OF assms(3,4,5)]] .
  then have e: "map_of (getToolDescriptions rt') (str ''VCPSum'') = Some sum_description"
    by (simp add: getToolDescriptions_def r assms(3) str_def)
  have a: "js_includes sum_description (str ''- Sum (Sum) - '' @ label_command @ str '': add:'')"
    unfolding js_includes_iff sum_description_def by (rule exI [of _ "[]"]) auto
  have b: "js_includes sum_description (str ''adds two numbers'')"
    unfolding js_includes_iff sum_description_def
    by (rule exI [of _ "str ''- Sum (Sum) - '' @ label_command @ str '': add:'' @ [10] @ str ''    ''"])
       (auto simp add: str_def)
  have c: "js_includes sum_description (str ''add 1 2'')"
    unfolding js_includes_iff sum_description_def
    by (rule exI [of _ "str ''- Sum (Sum) - '' @ label_command @ str '': add:'' @ [10]
     @ str ''    adds two numbers'' @ [10] @ str ''  '' @ label_example @ str '':'' @ [10]
     @ str ''    ''"]) (auto simp add: str_def)
  from r(1) e a b c show ?thesis by blast
qed

lemma no_english_label: "\<not> js_includes sum_description (str ''- Sum (Sum) - command: add:'')"
  by (simp add: js_includes_def indexOf_def sum_description_def label_command_def
      label_example_def str_def)

text \<open>
  Claim C2 as stated fails: the label of the command line is the Chinese word, so the
  entry does not contain \<open>- Sum (Sum) - command: add:\<close>.
\<close>

theorem catalog_entry_label_counterexample:
  "registerPlugin (sum_plugin Direct) new_runtime = Inr sum_runtime
   \<and> map_of (getToolDescriptions sum_runtime) (str ''VCPSum'') = Some sum_description
   \<and> \<not> js_includes sum_description (str ''- Sum (Sum) - command: add:'')"
proof -
  have "registerPlugin (sum_plugin Direct) new_runtime = Inr sum_runtime"
    by (rule sum_registered_fresh)
  moreover have "map_of (getToolDescriptions sum_runtime) (str ''VCPSum'') = Some sum_description"
    by (simp add: getToolDescriptions_def sum_runtime_def)
  ultimately show ?thesis using no_english_label by simp
qed

theorem catalog_entry_after_register_witness:
  "registerPlugin (sum_plugin Direct) new_runtime = Inr sum_runtime
   \<and> map_of (getToolDescriptions sum_runtime) (str ''VCPSum'') = Some sum_description
   \<and> js_includes sum_description (str ''- Sum (Sum) - '' @ label_command @ str '': add:'')
   \<and> js_includes sum_description (str ''adds two numbers'')
   \<and> js_includes sum_description (str ''add 1 2'')"
proof -
  have a: "distinct (map fst (plugins new_runtime))" by (simp add: new_runtime_def)
  have b: "\<forall>e \<in> set (plugins new_runtime). m_id (snd e) = fst e" by (simp add: new_runtime_def)
  have r: "registerPlugin (sum_plugin Direct) new_runtime = Inr sum_runtime"
    by (rule sum_registered_fresh)
  from catalog_entry_after_register [OF a b, of "sum_plugin Direct"] r
  show ?thesis by (simp add: sum_plugin_def)
qed

lemma register_tool_step_keeps:
  assumes "map_of (plugins rt) k \<noteq> None"
  shows "map_of (plugins (register_tool_step sid rt t)) k = map_of (plugins rt) k"
    and "map_of (distributedTools (register_tool_step sid rt t)) k = map_of (distributedTools rt) k"
    and "rt_emitted (register_tool_step sid rt t) = rt_emitted rt"
  using assms by (auto simp add: register_tool_step_def Let_def update_conv')

lemma register_tools_fold_keeps:
  "map_of (plugins rt) k \<noteq> None \<Longrightarrow>
     map_of (plugins (foldl (register_tool_step sid) rt ts)) k = map_of (plugins rt) k
   \<and> map_of (distributedTools (foldl (register_tool_step sid) rt ts)) k =
       map_of (distributedTools rt) k"
proof (induction ts arbitrary: rt)
  case Nil
  show ?case by simp
next
  case (Cons t ts)
  have "map_of (plugins (register_tool_step sid rt t)) k \<noteq> None"
    using Cons.prems by (simp add: register_tool_step_keeps)
  from Cons.IH [OF this] show ?case
    using Cons.prems by (simp add: register_tool_step_keeps)
qed

lemma register_tools_fold_emitted:
  "rt_emitted (foldl (register_tool_step sid) rt ts) = rt_emitted rt"
  by (induction ts arbitrary: rt) (simp_all add: register_tool_step_def Let_def)

text \<open>
  Claim C4. A manifest of the list whose id is already a key of the plugin map is skipped
  by \<open>registerDistributedTools\<close>: after the call the plugin under that id is the one that
  was there, the distributed-tool map has under that id what it had before, and no event
  has been emitted.
\<close>

theorem bulk_register_skips_collisions:
  assumes "d \<in> set ts" and "map_of (plugins rt) (m_id d) = Some existing"
  shows "map_of (plugins (registerDistributedTools sid ts rt)) (m_id d) = Some existing
       \<and> map_of (distributedTools (registerDistributedTools sid ts rt)) (m_id d) =
           map_of (distributedTools rt) (m_id d)
       \<and> rt_emitted (registerDistributedTools sid ts rt) = rt_emitted rt"
proof -
  have n: "map_of (plugins rt) (m_id d) \<noteq> None" using assms(2) by simp
  show ?thesis
    using register_tools_fold_keeps [OF n, of sid ts] assms(2)
    by (simp add: registerDistributedTools_def rebuildVCPDescriptions_def
        register_tools_fold_emitted)
qed

text \<open>
  A worker advertises a tool with the id \<open>Sum\<close> while the local plugin \<open>Sum\<close> is
  registered: the local plugin stays, and no distributed tool appears.
\<close>

theorem bulk_register_skips_collisions_witness:
  "sum_plugin Distributed \<in> set [sum_plugin Distributed]
   \<and> map_of (plugins sum_runtime) (str ''Sum'') = Some (sum_plugin Direct)
   \<and> map_of (plugins (registerDistributedTools (str ''dist-A'') [sum_plugin Distributed] sum_runtime))
        (str ''Sum'') = Some (sum_plugin Direct)
   \<and> map_of (distributedTools
        (registerDistributedTools (str ''dist-A'') [sum_plugin Distributed] sum_runtime))
        (str ''Sum'') = None
   \<and> rt_emitted (registerDistributedTools (str ''dist-A'') [sum_plugin Distributed] sum_runtime) =
        [Plugin_registered (sum_plugin Direct)]"
proof -
  have a: "sum_plugin Distributed \<in> set [sum_plugin Distributed]" by simp
  have i: "m_id (sum_plugin Distributed) = str ''Sum''" by (simp add: sum_plugin_def)
  have b: "map_of (plugins sum_runtime) (m_id (sum_plugin Distributed)) = Some (sum_plugin Direct)"
    by (simp add: sum_runtime_def i)
  from bulk_register_skips_collisions [OF a b, of "str ''dist-A''"] b
  show ?thesis by (simp add: i) (simp add: sum_runtime_def)
qed


section \<open>Regular expressions\<close>

text \<open>
  The two regular expressions of the code are sequences of literals and of quantified
  character classes. \<open>\w\<close> is \<open>[A-Za-z0-9_]\<close>; \<open>\s\<close> is the white space and the line
  terminators of ECMAScript, the set that \<open>trim\<close> removes as well; \<open>[\s\S]\<close> is any code
  unit; \<open>KeyChar\<close> is the class \<open>[a-zA-Z0-9_:]\<close> of the placeholder pattern.
\<close>

definition is_word :: "jschar \<Rightarrow> bool" where
  "is_word c = ((48 \<le> c \<and> c \<le> 57) \<or> (65 \<le> c \<and> c \<le> 90) \<or> (97 \<le> c \<and> c \<le> 122) \<or> c = 95)"

definition is_space :: "jschar \<Rightarrow> bool" where
  "is_space c = ((9 \<le> c \<and> c \<le> 13) \<or> c = 32 \<or> c = 0xA0 \<or> c = 0x1680
     \<or> (0x2000 \<le> c \<and> c \<le> 0x200A) \<or> c = 0x2028 \<or> c = 0x2029 \<or> c = 0x202F
     \<or> c = 0x205F \<or> c = 0x3000 \<or> c = 0xFEFF)"

datatype char_class = Word | Space | AnyChar | KeyChar

fun in_class :: "char_class \<Rightarrow> jschar \<Rightarrow> bool" where
  "in_class Word c = is_word c"
| "in_class Space c = is_space c"
| "in_class AnyChar c = True"
| "in_class KeyChar c = (is_word c \<or> c = 58)"

text \<open>
  An item of a pattern: a literal, a class under the greedy \<open>+\<close> or \<open>*\<close> or the lazy
  \<open>*?\<close>, or an optional single code unit \<open>(?:c)?\<close>.
\<close>

datatype rx_item = Lit jsstring | Plus char_class | Star char_class | LazyStar char_class | Opt jschar

text \<open>
  The numbers of code units an item can take from the front of the input, in the
  order in which the backtracking matcher tries them: a greedy quantifier tries the
  longest run first, a lazy one the shortest.
\<close>

fun candidates :: "rx_item \<Rightarrow> jsstring \<Rightarrow> nat list" where
  "candidates (Lit l) s = (if take (length l) s = l then [length l] else [])"
| "candidates (Plus c) s = rev [1..<Suc (length (takeWhile (in_class c) s))]"
| "candidates (Star c) s = rev [0..<Suc (length (takeWhile (in_class c) s))]"
| "candidates (LazyStar c) s = [0..<Suc (length (takeWhile (in_class c) s))]"
| "candidates (Opt ch) s = (if take 1 s = [ch] then [1, 0] else [0])"

text \<open>
  Matching a pattern at the front of the input, with backtracking: \<open>rx_match\<close> matches
  the items in order, and \<open>rx_try\<close> goes through the choices for one item and keeps the
  first for which the rest of the pattern matches. The result is the text each item
  matched and the input left over.
\<close>

fun rx_match :: "rx_item list \<Rightarrow> jsstring \<Rightarrow> (jsstring list \<times> jsstring) option"
  and rx_try :: "rx_item list \<Rightarrow> jsstring \<Rightarrow> nat list \<Rightarrow> (jsstring list \<times> jsstring) option" where
  "rx_match [] s = Some ([], s)"
| "rx_match (it # its) s = rx_try its s (candidates it s)"
| "rx_try its s [] = None"
| "rx_try its s (n # ns) =
     (case rx_match its (drop n s) of
        Some m \<Rightarrow> Some (take n s # fst m, snd m)
      | None \<Rightarrow> rx_try its s ns)"

text \<open>
  \<open>regex.exec(s)\<close> for a global pattern whose \<open>lastIndex\<close> is \<open>i\<close>: the leftmost match
  starting at or after \<open>i\<close>, as its start, the texts of its items and the input
  after it. The new \<open>lastIndex\<close> is the length of \<open>s\<close> less the length of that rest.
\<close>

function rx_exec :: "rx_item list \<Rightarrow> jsstring \<Rightarrow> nat \<Rightarrow> (nat \<times> jsstring list \<times> jsstring) option" where
  "rx_exec re s i =
     (if length s < i then None
      else (case rx_match re (drop i s) of
              Some m \<Rightarrow> Some (i, m)
            | None \<Rightarrow> rx_exec re s (Suc i)))"
  by pat_completeness auto

termination
  by (relation "measure (\<lambda>(re, s, i). Suc (length s) - i)") auto

declare rx_exec.simps [simp del]

text \<open>\<open>s.trim()\<close> and \<open>s.substring(a, b)\<close>.\<close>

definition trim :: "jsstring \<Rightarrow> jsstring" where
  "trim s = rev (dropWhile is_space (rev (dropWhile is_space s)))"

definition substring :: "jsstring \<Rightarrow> nat \<Rightarrow> nat \<Rightarrow> jsstring" where
  "substring s a b =
     (let a' = min a (length s); b' = min b (length s)
      in take (max a' b' - min a' b') (drop (min a' b') s))"

section \<open>The protocol parser (VCPProtocolParser.ts)\<close>

record VCPProtocolConfig =
  toolRequestStartMarker :: jsstring
  toolRequestEndMarker :: jsstring
  paramStartMarker :: jsstring
  paramEndMarker :: jsstring
  debug :: bool

text \<open>
  The default parameter markers are U+300C U+59CB U+300D and U+300C U+672B U+300D.
\<close>

definition DEFAULT_CONFIG :: VCPProtocolConfig where
  "DEFAULT_CONFIG = \<lparr> toolRequestStartMarker = str ''<<<[TOOL_REQUEST]>>>'',
     toolRequestEndMarker = str ''<<<[END_TOOL_REQUEST]>>>'',
     paramStartMarker = [0x300C, 0x59CB, 0x300D],
     paramEndMarker = [0x300C, 0x672B, 0x300D],
     debug = False \<rparr>"

record VCPToolRequest =
  name :: jsstring
  args :: "jsstring \<Rightarrow> jsstring option"
  archery :: bool
  rawText :: jsstring

text \<open>
  The pattern of \<open>parseRequestBlock\<close>, with the markers escaped, so literal:
  \<open>([\w_]+)\s*:\s*START([\s\S]*?)END\s*(?:,)?\<close>. Its groups are the items 0 and 5.
\<close>

definition paramRegex :: "VCPProtocolConfig \<Rightarrow> rx_item list" where
  "paramRegex cfg = [Plus Word, Star Space, Lit (str '':''), Star Space, Lit (paramStartMarker cfg),
     LazyStar AnyChar, Lit (paramEndMarker cfg), Star Space, Opt 44]"

lemma candidates_le: "n \<in> set (candidates it s) \<Longrightarrow> n \<le> length s"
proof (cases it)
  case (Lit l)
  assume "n \<in> set (candidates it s)"
  then have "take (length l) s = l" "n = length l" using Lit by (auto split: if_splits)
  then have "length (take n s) = n" by simp
  then show ?thesis by simp
next
  case (Plus c)
  assume "n \<in> set (candidates it s)"
  then have "n \<le> length (takeWhile (in_class c) s)" using Plus by auto
  then show ?thesis using length_takeWhile_le [of "in_class c" s] by linarith
next
  case (Star c)
  assume "n \<in> set (candidates it s)"
  then have "n \<le> length (takeWhile (in_class c) s)" using Star by auto
  then show ?thesis using length_takeWhile_le [of "in_class c" s] by linarith
next
  case (LazyStar c)
  assume "n \<in> set (candidates it s)"
  then have "n \<le> length (takeWhile (in_class c) s)" using LazyStar by auto
  then show ?thesis using length_takeWhile_le [of "in_class c" s] by linarith
next
  case (Opt ch)
  assume "n \<in> set (candidates it s)"
  then show ?thesis using Opt by (cases s) (auto split: if_splits)
qed

lemma rx_try_SomeD:
  "rx_try its s ns = Some (ps, r) \<Longrightarrow>
     \<exists>n \<in> set ns. \<exists>qs. ps = take n s # qs \<and> rx_match its (drop n s) = Some (qs, r)"
  by (induction ns) (auto split: option.splits)

lemma rx_match_ConsD:
  "rx_match (it # its) s = Some (ps, r) \<Longrightarrow>
     \<exists>n \<in> set (candidates it s). \<exists>qs. ps = take n s # qs \<and> rx_match its (drop n s) = Some (qs, r)"
  by (simp add: rx_try_SomeD)

lemma rx_match_concat: "rx_match its s = Some (ps, r) \<Longrightarrow> concat ps @ r = s"
proof (induction its arbitrary: s ps r)
  case Nil
  then show ?case by simp
next
  case (Cons it its)
  from rx_match_ConsD [OF Cons.prems] obtain n qs where
    "ps = take n s # qs" "rx_match its (drop n s) = Some (qs, r)" by blast
  then show ?case using Cons.IH [of "drop n s" qs r] by simp
qed

lemma rx_match_length:
  assumes "rx_match (it # its) s = Some (ps, r)" and "\<forall>n \<in> set (candidates it s). 0 < n"
  shows "length r < length s"
proof -
  from rx_match_ConsD [OF assms(1)] obtain n qs where
    n: "n \<in> set (candidates it s)" "rx_match its (drop n s) = Some (qs, r)" by blast
  from rx_match_concat [OF n(2)] have "length r \<le> length s - n"
    by (metis length_append length_drop le_add2)
  moreover have "0 < n" "n \<le> length s" using n(1) assms(2) candidates_le by auto
  ultimately show ?thesis by linarith
qed

lemma rx_exec_SomeD:
  "rx_exec re s i = Some (j, ps, r) \<Longrightarrow> i \<le> j \<and> j \<le> length s \<and> rx_match re (drop j s) = Some (ps, r)"
proof (induction re s i rule: rx_exec.induct)
  case (1 re s i)
  show ?case
  proof (cases "rx_match re (drop i s)")
    case None
    then have "rx_exec re s (Suc i) = Some (j, ps, r)" "\<not> length s < i"
      using "1.prems" by (auto simp add: rx_exec.simps [of re s i] split: if_splits)
    then show ?thesis using "1.IH" None by auto
  next
    case (Some m)
    then show ?thesis using "1.prems"
      by (auto simp add: rx_exec.simps [of re s i] split: if_splits)
  qed
qed

lemma rx_exec_advances:
  assumes "rx_exec (it # its) s i = Some (j, ps, r)" and "\<And>t. \<forall>n \<in> set (candidates it t). 0 < n"
  shows "i < length s - length r"
proof -
  from rx_exec_SomeD [OF assms(1)] have
    k: "i \<le> j" and m: "rx_match (it # its) (drop j s) = Some (ps, r)" by auto
  from rx_match_length [OF m assms(2)] have "length r < length s - j" by simp
  then show ?thesis using k by linarith
qed

lemma paramRegex_advances:
  "rx_exec (paramRegex cfg) s i = Some (j, ps, r) \<Longrightarrow> i < length s - length r"
  unfolding paramRegex_def by (rule rx_exec_advances) auto

text \<open>
  The loop \<open>while ((match = paramRegex.exec(blockContent)) !== null)\<close>: the key and the
  value of every match, from \<open>lastIndex\<close> \<open>i\<close> on. A match has at least one code unit, so
  \<open>lastIndex\<close> grows and the loop ends.
\<close>

function param_matches :: "VCPProtocolConfig \<Rightarrow> jsstring \<Rightarrow> nat \<Rightarrow> (jsstring \<times> jsstring) list" where
  "param_matches cfg s i =
     (case rx_exec (paramRegex cfg) s i of
        None \<Rightarrow> []
      | Some m \<Rightarrow> (fst (snd m) ! 0, fst (snd m) ! 5) # param_matches cfg s (length s - length (snd (snd m))))"
  by pat_completeness auto

termination
proof (relation "measure (\<lambda>(cfg, s, i). Suc (length s) - i)")
  show "wf (measure (\<lambda>(cfg, s, i). Suc (length s) - i))" by simp
next
  fix cfg s i m
  assume "rx_exec (paramRegex cfg) s i = Some m"
  then have "rx_exec (paramRegex cfg) s i = Some (fst m, fst (snd m), snd (snd m))" by simp
  from paramRegex_advances [OF this]
  show "((cfg, s, length s - length (snd (snd m))), cfg, s, i)
          \<in> measure (\<lambda>(cfg, s, i). Suc (length s) - i)"
    by simp
qed

declare param_matches.simps [simp del]

text \<open>
  \<open>parsedArgs[key] = value\<close> on an object literal: the key \<open>__proto__\<close> reaches the setter
  of \<open>Object.prototype\<close>, which ignores a string, so no property is made.
\<close>

definition set_property ::
  "(jsstring \<Rightarrow> jsstring option) \<Rightarrow> jsstring \<Rightarrow> jsstring \<Rightarrow> (jsstring \<Rightarrow> jsstring option)" where
  "set_property obj key v = (if key = str ''__proto__'' then obj else obj(key \<mapsto> v))"

text \<open>The body of the loop, on \<open>toolName\<close>, \<open>isArchery\<close> and \<open>parsedArgs\<close>.\<close>

definition field_step ::
  "jsstring option \<times> bool \<times> (jsstring \<Rightarrow> jsstring option) \<Rightarrow> jsstring \<times> jsstring
     \<Rightarrow> jsstring option \<times> bool \<times> (jsstring \<Rightarrow> jsstring option)" where
  "field_step acc kv =
     (let key = fst kv; v = trim (snd kv)
      in if key = str ''tool_name'' then (Some v, fst (snd acc), snd (snd acc))
         else if key = str ''archery''
           then (fst acc, v = str ''true'' \<or> v = str ''no_reply'', snd (snd acc))
         else (fst acc, fst (snd acc), set_property (snd (snd acc)) key v))"

definition parseRequestBlock :: "VCPProtocolConfig \<Rightarrow> jsstring \<Rightarrow> VCPToolRequest option" where
  "parseRequestBlock cfg blockContent =
     (let acc = foldl field_step (None, False, Map.empty) (param_matches cfg blockContent 0)
      in if \<not> truthy (fst acc) then None
         else Some \<lparr> name = the (fst acc), args = snd (snd acc), archery = fst (snd acc),
                      rawText = blockContent \<rparr>)"

text \<open>
  The loop of \<open>parseToolRequests\<close> from \<open>searchOffset\<close> on. With an empty start marker
  and no end marker in the text the offset never moves and the loop does not end, so
  the result is optional: \<open>None\<close> is a loop that does not return.
\<close>

partial_function (option) parse_loop ::
  "VCPProtocolConfig \<Rightarrow> jsstring \<Rightarrow> nat \<Rightarrow> VCPToolRequest list \<Rightarrow> VCPToolRequest list option" where
  "parse_loop cfg content searchOffset toolRequests =
     (if searchOffset < length content then
        (case indexOf content (toolRequestStartMarker cfg) searchOffset of
           None \<Rightarrow> Some toolRequests
         | Some startIndex \<Rightarrow>
             (case indexOf content (toolRequestEndMarker cfg)
                     (startIndex + length (toolRequestStartMarker cfg)) of
                None \<Rightarrow>
                  parse_loop cfg content (startIndex + length (toolRequestStartMarker cfg))
                    toolRequests
              | Some endIndex \<Rightarrow>
                  parse_loop cfg content (endIndex + length (toolRequestEndMarker cfg))
                    (case parseRequestBlock cfg
                            (trim (substring content
                               (startIndex + length (toolRequestStartMarker cfg)) endIndex)) of
                       None \<Rightarrow> toolRequests
                     | Some r \<Rightarrow> toolRequests @ [r])))
      else Some toolRequests)"

definition parseToolRequests :: "VCPProtocolConfig \<Rightarrow> jsstring \<Rightarrow> VCPToolRequest list option" where
  "parseToolRequests cfg content = parse_loop cfg content 0 []"

definition hasToolRequests :: "VCPProtocolConfig \<Rightarrow> jsstring \<Rightarrow> bool" where
  "hasToolRequests cfg content = js_includes content (toolRequestStartMarker cfg)"

text \<open>The block of scenario S2 and the request it describes.\<close>

definition fetch_block :: jsstring where
  "fetch_block = str ''tool_name:'' @ [0x300C, 0x59CB, 0x300D] @ str ''Fetch'' @ [0x300C, 0x672B, 0x300D]
     @ str '', url:'' @ [0x300C, 0x59CB, 0x300D] @ str ''http://x'' @ [0x300C, 0x672B, 0x300D]
     @ str '', archery:'' @ [0x300C, 0x59CB, 0x300D] @ str ''no_reply'' @ [0x300C, 0x672B, 0x300D]"

definition fetch_request :: VCPToolRequest where
  "fetch_request = \<lparr> name = str ''Fetch'', args = [str ''url'' \<mapsto> str ''http://x''],
     archery = True, rawText = fetch_block \<rparr>"

text \<open>The trimmed values of the \<open>archery\<close> fields of a block, in the order of the block.\<close>

definition archery_values :: "VCPProtocolConfig \<Rightarrow> jsstring \<Rightarrow> jsstring list" where
  "archery_values cfg blockContent =
     map (\<lambda>kv. trim (snd kv)) (filter (\<lambda>kv. fst kv = str ''archery'') (param_matches cfg blockContent 0))"

text \<open>Texts with the opening delimiter that hold no request.\<close>

definition unclosed_text :: jsstring where
  "unclosed_text = str ''hi <<<[TOOL_REQUEST]>>>tool_name:'' @ [0x300C, 0x59CB, 0x300D] @ str ''Ping''
     @ [0x300C, 0x672B, 0x300D] @ str '' bye''"

definition nameless_block :: jsstring where
  "nameless_block = str ''url:'' @ [0x300C, 0x59CB, 0x300D] @ str ''http://x''
     @ [0x300C, 0x672B, 0x300D]"

definition nameless_text :: jsstring where
  "nameless_text = str ''<<<[TOOL_REQUEST]>>>'' @ nameless_block @ str ''<<<[END_TOOL_REQUEST]>>>''"

definition fetch_text :: jsstring where
  "fetch_text = str ''<<<[TOOL_REQUEST]>>>'' @ fetch_block @ str ''<<<[END_TOOL_REQUEST]>>>''"

subsection \<open>Properties of the parser\<close>

lemma fetch_matches:
  "param_matches DEFAULT_CONFIG fetch_block 0 =
     [(str ''tool_name'', str ''Fetch''), (str ''url'', str ''http://x''), (str ''archery'', str ''no_reply'')]"
  by (simp add: param_matches.simps rx_exec.simps paramRegex_def DEFAULT_CONFIG_def fetch_block_def
      str_def is_word_def is_space_def)

lemma trim_plain:
  "trim (str ''Fetch'') = str ''Fetch''" "trim (str ''http://x'') = str ''http://x''"
  "trim (str ''no_reply'') = str ''no_reply''"
  by (simp_all add: trim_def str_def is_space_def)

lemma fetch_parsed: "parseRequestBlock DEFAULT_CONFIG fetch_block = Some fetch_request"
  by (simp add: parseRequestBlock_def fetch_matches field_step_def set_property_def trim_plain
      fetch_request_def Let_def)

lemma fold_fields_archery:
  "fst (snd (foldl field_step acc fs)) =
     (let vs = map (\<lambda>kv. trim (snd kv)) (filter (\<lambda>kv. fst kv = str ''archery'') fs)
      in if vs = [] then fst (snd acc) else (last vs = str ''true'' \<or> last vs = str ''no_reply''))"
  by (induction fs rule: rev_induct) (auto simp add: field_step_def Let_def)

lemma fold_fields_args:
  "snd (snd acc) (str ''archery'') = None \<Longrightarrow>
     snd (snd (foldl field_step acc fs)) (str ''archery'') = None"
  by (induction fs rule: rev_induct) (auto simp add: field_step_def set_property_def Let_def)

lemma fetch_text_parsed: "parseToolRequests DEFAULT_CONFIG fetch_text = Some [fetch_request]"
proof -
  have s: "trim (substring fetch_text 20 85) = fetch_block"
    by (simp add: fetch_text_def fetch_block_def substring_def trim_def str_def is_space_def)
  have i: "indexOf fetch_text (str ''<<<[TOOL_REQUEST]>>>'') 0 = Some 0"
    by (simp add: indexOf_def fetch_text_def fetch_block_def str_def)
  have j: "indexOf fetch_text (str ''<<<[END_TOOL_REQUEST]>>>'') 20 = Some 85"
    by (simp add: indexOf_def fetch_text_def fetch_block_def str_def)
  have l: "length fetch_text = 109" "length (str ''<<<[TOOL_REQUEST]>>>'') = 20"
    "length (str ''<<<[END_TOOL_REQUEST]>>>'') = 24"
    by (simp_all add: fetch_text_def fetch_block_def str_def)
  show ?thesis
    by (simp add: parseToolRequests_def parse_loop.simps DEFAULT_CONFIG_def i j l s fetch_parsed
        [unfolded DEFAULT_CONFIG_def])
qed

text \<open>
  Claim C7. For every block that \<open>parseRequestBlock\<close> turns into a request, the flag
  \<open>archery\<close> of the request is true exactly when the block has an \<open>archery\<close> field and
  the trimmed value of the last one is \<open>true\<close> or \<open>no_reply\<close>, and no argument is stored
  under the key \<open>archery\<close>. The block of scenario S2 gives the request \<open>Fetch\<close> with the
  one argument \<open>url\<close> and the flag set, and the text made of that block between the two
  delimiters gives exactly that one request.
\<close>

theorem archery_flag:
  assumes "parseRequestBlock cfg blockContent = Some r"
  shows "archery r =
           (archery_values cfg blockContent \<noteq> []
            \<and> (last (archery_values cfg blockContent) = str ''true''
               \<or> last (archery_values cfg blockContent) = str ''no_reply''))
       \<and> args r (str ''archery'') = None
       \<and> parseRequestBlock DEFAULT_CONFIG fetch_block = Some fetch_request
       \<and> parseToolRequests DEFAULT_CONFIG fetch_text = Some [fetch_request]"
proof -
  let ?acc = "foldl field_step (None, False, Map.empty) (param_matches cfg blockContent 0)"
  from assms have r: "archery r = fst (snd ?acc)" "args r = snd (snd ?acc)"
    by (auto simp add: parseRequestBlock_def Let_def split: if_splits)
  have a: "archery r =
           (archery_values cfg blockContent \<noteq> []
            \<and> (last (archery_values cfg blockContent) = str ''true''
               \<or> last (archery_values cfg blockContent) = str ''no_reply''))"
    unfolding r(1) fold_fields_archery archery_values_def by (simp add: Let_def)
  have b: "args r (str ''archery'') = None"
    unfolding r(2) by (rule fold_fields_args) simp
  from a b fetch_parsed fetch_text_parsed show ?thesis by simp
qed

theorem archery_flag_witness:
  "parseRequestBlock DEFAULT_CONFIG fetch_block = Some fetch_request
   \<and> archery_values DEFAULT_CONFIG fetch_block = [str ''no_reply'']
   \<and> archery fetch_request
   \<and> args fetch_request (str ''archery'') = None
   \<and> args fetch_request (str ''url'') = Some (str ''http://x'')"
proof -
  have v: "archery_values DEFAULT_CONFIG fetch_block = [str ''no_reply'']"
    by (simp add: archery_values_def fetch_matches trim_plain)
  from archery_flag [OF fetch_parsed] v fetch_parsed show ?thesis
    by (simp add: fetch_request_def)
qed

lemma nameless_matches:
  "param_matches DEFAULT_CONFIG nameless_block 0 = [(str ''url'', str ''http://x'')]"
  by (simp add: param_matches.simps rx_exec.simps paramRegex_def DEFAULT_CONFIG_def
      nameless_block_def str_def is_word_def is_space_def)

lemma nameless_block_parsed: "parseRequestBlock DEFAULT_CONFIG nameless_block = None"
  by (simp add: parseRequestBlock_def nameless_matches field_step_def set_property_def Let_def)

lemma nameless_parsed: "parseToolRequests DEFAULT_CONFIG nameless_text = Some []"
proof -
  have s: "trim (substring nameless_text 20 38) = nameless_block"
    by (simp add: nameless_text_def nameless_block_def substring_def trim_def str_def is_space_def)
  have i: "indexOf nameless_text (str ''<<<[TOOL_REQUEST]>>>'') 0 = Some 0"
    by (simp add: indexOf_def nameless_text_def nameless_block_def str_def)
  have j: "indexOf nameless_text (str ''<<<[END_TOOL_REQUEST]>>>'') 20 = Some 38"
    by (simp add: indexOf_def nameless_text_def nameless_block_def str_def)
  have l: "length nameless_text = 62" "length (str ''<<<[TOOL_REQUEST]>>>'') = 20"
    "length (str ''<<<[END_TOOL_REQUEST]>>>'') = 24"
    by (simp_all add: nameless_text_def nameless_block_def str_def)
  show ?thesis
    by (simp add: parseToolRequests_def parse_loop.simps DEFAULT_CONFIG_def i j l s
        nameless_block_parsed [unfolded DEFAULT_CONFIG_def])
qed

lemma unclosed_parsed: "parseToolRequests DEFAULT_CONFIG unclosed_text = Some []"
proof -
  have i: "indexOf unclosed_text (str ''<<<[TOOL_REQUEST]>>>'') 0 = Some 3"
    by (simp add: indexOf_def unclosed_text_def str_def)
  have j: "indexOf unclosed_text (str ''<<<[END_TOOL_REQUEST]>>>'') 23 = None"
    by (simp add: indexOf_def unclosed_text_def str_def)
  have k: "indexOf unclosed_text (str ''<<<[TOOL_REQUEST]>>>'') 23 = None"
    by (simp add: indexOf_def unclosed_text_def str_def)
  have l: "length unclosed_text = 47" "length (str ''<<<[TOOL_REQUEST]>>>'') = 20"
    by (simp_all add: unclosed_text_def str_def)
  show ?thesis
    by (simp add: parseToolRequests_def parse_loop.simps DEFAULT_CONFIG_def i j k l)
qed

lemma has_examples:
  "hasToolRequests DEFAULT_CONFIG unclosed_text" "hasToolRequests DEFAULT_CONFIG nameless_text"
  by (simp_all add: hasToolRequests_def js_includes_def indexOf_def DEFAULT_CONFIG_def
      unclosed_text_def nameless_text_def nameless_block_def str_def)

text \<open>
  Claim C10. \<open>hasToolRequests\<close> is true exactly when the text contains the opening
  delimiter of the configuration. So it is true for a text with an opening delimiter and
  no closing one, and for a delimited block with no \<open>tool_name\<close> field, while
  \<open>parseToolRequests\<close> returns the empty list for both.
\<close>

theorem has_requests_is_delimiter_test:
  "(hasToolRequests cfg text = (\<exists>xs ys. text = xs @ toolRequestStartMarker cfg @ ys))
   \<and> hasToolRequests DEFAULT_CONFIG unclosed_text
   \<and> parseToolRequests DEFAULT_CONFIG unclosed_text = Some []
   \<and> hasToolRequests DEFAULT_CONFIG nameless_text
   \<and> parseToolRequests DEFAULT_CONFIG nameless_text = Some []"
  using has_examples unclosed_parsed nameless_parsed
  by (simp add: hasToolRequests_def js_includes_iff)

theorem has_requests_is_delimiter_test_witness:
  "hasToolRequests DEFAULT_CONFIG (str ''<<<[TOOL_REQUEST]>>>'')
   \<and> \<not> hasToolRequests DEFAULT_CONFIG (str ''<<<[END_TOOL_REQUEST]>>>'')
   \<and> parseToolRequests DEFAULT_CONFIG unclosed_text = Some []"
proof -
  have a: "\<exists>xs ys. str ''<<<[TOOL_REQUEST]>>>'' = xs @ toolRequestStartMarker DEFAULT_CONFIG @ ys"
    by (rule exI [of _ "[]"], rule exI [of _ "[]"]) (simp add: DEFAULT_CONFIG_def)
  have b: "\<not> hasToolRequests DEFAULT_CONFIG (str ''<<<[END_TOOL_REQUEST]>>>'')"
    by (simp add: hasToolRequests_def js_includes_def indexOf_def DEFAULT_CONFIG_def str_def)
  from has_requests_is_delimiter_test [of DEFAULT_CONFIG "str ''<<<[TOOL_REQUEST]>>>''"] a b
  show ?thesis by simp
qed


section \<open>The variable engine (VariableEngine.ts)\<close>

text \<open>
  A provider has a name and a \<open>resolve\<close> function, which returns a string or \<open>null\<close>, or
  throws. The context of a call is handed to every provider unchanged, so a provider is
  a function of the key.
\<close>

datatype provider_result = Returns "jsstring option" | Throws js_error

record provider =
  p_name :: jsstring
  p_resolve :: "jsstring \<Rightarrow> provider_result"

text \<open>
  The options of the engine. The placeholder pattern is taken at its default,
  \<open>\{\{([a-zA-Z0-9_:]+)\}\}\<close>; the depth is a natural number.
\<close>

record VariableEngineOptions =
  enableRecursion :: bool
  maxRecursionDepth :: nat
  detectCircular :: bool

definition DEFAULT_OPTIONS :: VariableEngineOptions where
  "DEFAULT_OPTIONS = \<lparr> enableRecursion = True, maxRecursionDepth = 10, detectCircular = True \<rparr>"

definition MAX_PLACEHOLDERS :: nat where
  "MAX_PLACEHOLDERS = 100"

definition placeholderPattern :: "rx_item list" where
  "placeholderPattern = [Lit (str ''{{''), Plus KeyChar, Lit (str ''}}'')]"

lemma placeholderPattern_advances:
  "rx_exec placeholderPattern s i = Some (j, ps, r) \<Longrightarrow> i < length s - length r"
  unfolding placeholderPattern_def by (rule rx_exec_advances) (auto simp add: str_def)

text \<open>
  The loop \<open>while ((match = regex.exec(content)) !== null)\<close> of \<open>extractPlaceholders\<close>:
  the key and the full text of every match.
\<close>

function placeholder_matches :: "jsstring \<Rightarrow> nat \<Rightarrow> (jsstring \<times> jsstring) list" where
  "placeholder_matches s i =
     (case rx_exec placeholderPattern s i of
        None \<Rightarrow> []
      | Some m \<Rightarrow> (fst (snd m) ! 1, concat (fst (snd m)))
                    # placeholder_matches s (length s - length (snd (snd m))))"
  by pat_completeness auto

termination
proof (relation "measure (\<lambda>(s, i). Suc (length s) - i)")
  show "wf (measure (\<lambda>(s, i). Suc (length s) - i))" by simp
next
  fix s i m
  assume "rx_exec placeholderPattern s i = Some m"
  then have "rx_exec placeholderPattern s i = Some (fst m, fst (snd m), snd (snd m))" by simp
  from placeholderPattern_advances [OF this]
  show "((s, length s - length (snd (snd m))), s, i) \<in> measure (\<lambda>(s, i). Suc (length s) - i)"
    by simp
qed

declare placeholder_matches.simps [simp del]

text \<open>The filter at the end of \<open>extractPlaceholders\<close>: the first match of every key.\<close>

fun dedupe :: "jsstring list \<Rightarrow> (jsstring \<times> jsstring) list \<Rightarrow> (jsstring \<times> jsstring) list" where
  "dedupe seen [] = []"
| "dedupe seen (p # ps) =
     (if fst p \<in> set seen then dedupe seen ps else p # dedupe (fst p # seen) ps)"

definition extractPlaceholders :: "jsstring \<Rightarrow> (jsstring \<times> jsstring) list" where
  "extractPlaceholders content = dedupe [] (placeholder_matches content 0)"

text \<open>
  The replacement text of \<open>String.prototype.replace\<close> for a pattern without groups:
  \<open>$$\<close> is a dollar sign, \<open>$&\<close> the match, \<open>$`\<close> the text before the match and \<open>$'\<close>
  the text after it; every other code unit stands for itself.
\<close>

fun expand_replacement :: "jsstring \<Rightarrow> jsstring \<Rightarrow> jsstring \<Rightarrow> jsstring \<Rightarrow> jsstring" where
  "expand_replacement [] matched pre after = []"
| "expand_replacement [c] matched pre after = [c]"
| "expand_replacement (c # d # r) matched pre after =
     (if c = 36 \<and> d = 36 then 36 # expand_replacement r matched pre after
      else if c = 36 \<and> d = 38 then matched @ expand_replacement r matched pre after
      else if c = 36 \<and> d = 96 then pre @ expand_replacement r matched pre after
      else if c = 36 \<and> d = 39 then after @ expand_replacement r matched pre after
      else c # expand_replacement (d # r) matched pre after)"

text \<open>
  \<open>content.replace(regex, value)\<close> for the global pattern that matches the text \<open>pat\<close>
  literally, on the rest \<open>s\<close> of a text whose part \<open>pre\<close> has been passed. The empty
  pattern matches pre every code unit and at the end.
\<close>

function replace_all :: "jsstring \<Rightarrow> jsstring \<Rightarrow> jsstring \<Rightarrow> jsstring \<Rightarrow> jsstring" where
  "replace_all pat v pre s =
     (if pat \<noteq> [] \<and> take (length pat) s = pat then
        expand_replacement v pat pre (drop (length pat) s)
          @ replace_all pat v (pre @ pat) (drop (length pat) s)
      else (if pat = [] then expand_replacement v [] pre s else [])
          @ (case s of [] \<Rightarrow> [] | c # cs \<Rightarrow> c # replace_all pat v (pre @ [c]) cs))"
  by pat_completeness auto

termination
proof (relation "measure (\<lambda>(pat, v, pre, s). length s)")
  show "wf (measure (\<lambda>(pat, v, pre, s). length s))" by simp
next
  fix pat v pre :: jsstring and s :: jsstring
  assume "pat \<noteq> [] \<and> take (length pat) s = pat"
  then have "s \<noteq> []" "pat \<noteq> []" by auto
  then show "((pat, v, pre @ pat, drop (length pat) s), pat, v, pre, s)
               \<in> measure (\<lambda>(pat, v, pre, s). length s)"
    by simp
next
  fix pat v pre :: jsstring and s :: jsstring and c cs
  assume "s = c # cs"
  then show "((pat, v, pre @ [c], cs), pat, v, pre, s)
               \<in> measure (\<lambda>(pat, v, pre, s). length s)"
    by simp
qed

declare replace_all.simps [simp del]

text \<open>The loop over the replacements, in the order of the map.\<close>

definition apply_replacements :: "(jsstring \<times> jsstring) list \<Rightarrow> jsstring \<Rightarrow> jsstring" where
  "apply_replacements repl content = foldl (\<lambda>c pv. replace_all (fst pv) (snd pv) [] c) content repl"

text \<open>
  The processing stack is a \<open>Set\<close>, which keeps the order of insertion: a list without
  repetition.
\<close>

definition set_add :: "jsstring \<Rightarrow> jsstring list \<Rightarrow> jsstring list" where
  "set_add k st = (if k \<in> set st then st else st @ [k])"

definition set_delete :: "jsstring \<Rightarrow> jsstring list \<Rightarrow> jsstring list" where
  "set_delete k st = filter (\<lambda>x. x \<noteq> k) st"

text \<open>What the engine writes with \<open>logger.error\<close>.\<close>

datatype log_entry =
    Circular_detected "jsstring list" jsstring
  | Resolve_failed jsstring jsstring js_error

definition depth_error :: "VariableEngineOptions \<Rightarrow> nat \<Rightarrow> jsstring \<Rightarrow> js_error" where
  "depth_error opts depth content =
     VCPError MAX_RECURSION_DEPTH
       (str ''Maximum recursion depth of '' @ digits (maxRecursionDepth opts) @ str '' exceeded'')
       [(str ''depth'', NVal (int depth)), (str ''content'', SVal (substring content 0 100))]"

definition count_error :: "nat \<Rightarrow> js_error" where
  "count_error n =
     VCPError VARIABLE_RESOLVE_ERROR
       (str ''Too many placeholders: '' @ digits n @ str '' (max: '' @ digits MAX_PLACEHOLDERS @ str '')'')
       [(str ''count'', NVal (int n))]"

definition circular_error :: "jsstring list \<Rightarrow> jsstring \<Rightarrow> js_error" where
  "circular_error st k =
     CircularDependencyError
       (str ''Circular variable reference detected for '' @ [39] @ k @ [39])
       [(str ''stack'', SVal (join (str '' -> '') st)), (str ''key'', SVal k)]"

text \<open>
  \<open>resolveRecursive\<close>, the loop over the placeholders of a text
  (\<open>resolve_placeholders\<close>, with the replacements collected so far) and the loop over the
  providers for one key (\<open>try_providers\<close>, with the value of the variable \<open>resolved\<close>).
  Each returns its result or the error it throws, the processing stack as it leaves it,
  and what it has logged. The \<open>try\<close> of the provider loop spans the recursive call: an
  error from there that is not a \<open>CircularDependencyError\<close> is logged, the key stays on
  the stack, \<open>resolved\<close> keeps the value of the provider, and the loop goes on.
\<close>

function resolveRecursive ::
    "VariableEngineOptions \<Rightarrow> provider list \<Rightarrow> jsstring \<Rightarrow> jsstring list \<Rightarrow> nat
       \<Rightarrow> (js_error + jsstring) \<times> jsstring list \<times> log_entry list"
  and resolve_placeholders ::
    "VariableEngineOptions \<Rightarrow> provider list \<Rightarrow> (jsstring \<times> jsstring) list \<Rightarrow> jsstring list \<Rightarrow> nat
       \<Rightarrow> (jsstring \<times> jsstring) list
       \<Rightarrow> (js_error + (jsstring \<times> jsstring) list) \<times> jsstring list \<times> log_entry list"
  and try_providers ::
    "VariableEngineOptions \<Rightarrow> provider list \<Rightarrow> provider list \<Rightarrow> jsstring \<Rightarrow> jsstring list \<Rightarrow> nat
       \<Rightarrow> jsstring option
       \<Rightarrow> (js_error + jsstring option) \<times> jsstring list \<times> log_entry list" where
  "resolveRecursive opts provs content st depth =
     (if maxRecursionDepth opts \<le> depth then (Inl (depth_error opts depth content), st, [])
      else if MAX_PLACEHOLDERS < length (extractPlaceholders content)
        then (Inl (count_error (length (extractPlaceholders content))), st, [])
      else (case resolve_placeholders opts provs (extractPlaceholders content) st depth [] of
              (Inl e, st', lg) \<Rightarrow> (Inl e, st', lg)
            | (Inr repl, st', lg) \<Rightarrow> (Inr (apply_replacements repl content), st', lg)))"
| "resolve_placeholders opts provs [] st depth repl = (Inr repl, st, [])"
| "resolve_placeholders opts provs (p # rest) st depth repl =
     (if detectCircular opts \<and> fst p \<in> set st
        then (Inl (circular_error st (fst p)), st, [Circular_detected st (fst p)])
      else (case try_providers opts provs provs (fst p) st depth None of
              (Inl e, st', lg) \<Rightarrow> (Inl e, st', lg)
            | (Inr resolved, st', lg) \<Rightarrow>
                (case resolve_placeholders opts provs rest st' depth
                        (case resolved of None \<Rightarrow> repl | Some v \<Rightarrow> AList.update (snd p) v repl) of
                   (r, st'', lg') \<Rightarrow> (r, st'', lg @ lg'))))"
| "try_providers opts provs [] k st depth resolved = (Inr resolved, st, [])"
| "try_providers opts provs (pr # rest) k st depth resolved =
     (case p_resolve pr k of
        Throws e \<Rightarrow>
          if is_circular e then (Inl e, st, [Resolve_failed k (p_name pr) e])
          else (case try_providers opts provs rest k st depth resolved of
                  (r, st', lg) \<Rightarrow> (r, st', Resolve_failed k (p_name pr) e # lg))
      | Returns None \<Rightarrow> try_providers opts provs rest k st depth None
      | Returns (Some v) \<Rightarrow>
          (case resolveRecursive opts provs v (set_add k st) (Suc depth) of
             (Inr v', st', lg) \<Rightarrow> (Inr (Some v'), set_delete k st', lg)
           | (Inl e, st', lg) \<Rightarrow>
               if is_circular e then (Inl e, st', lg @ [Resolve_failed k (p_name pr) e])
               else (case try_providers opts provs rest k st' depth (Some v) of
                       (r, st'', lg') \<Rightarrow> (r, st'', lg @ Resolve_failed k (p_name pr) e # lg'))))"
  by pat_completeness auto

termination
  apply (relation "measures
     [\<lambda>x. case x of
             Inl (opts, provs, content, st, depth) \<Rightarrow>
               (if depth < maxRecursionDepth opts then 3 * (maxRecursionDepth opts - depth) + 3 else 0)
           | Inr (Inl (opts, provs, phs, st, depth, repl)) \<Rightarrow> 3 * (maxRecursionDepth opts - depth) + 2
           | Inr (Inr (opts, provs, rest, k, st, depth, resolved)) \<Rightarrow>
               3 * (maxRecursionDepth opts - depth) + 1,
      \<lambda>x. case x of
             Inl (opts, provs, content, st, depth) \<Rightarrow> 0
           | Inr (Inl (opts, provs, phs, st, depth, repl)) \<Rightarrow> length phs
           | Inr (Inr (opts, provs, rest, k, st, depth, resolved)) \<Rightarrow> length rest]")
  apply auto
  done

text \<open>\<open>resolveSingle\<close>: one pass, every error of a provider is logged and passed over.\<close>

fun single_providers :: "provider list \<Rightarrow> jsstring \<Rightarrow> jsstring option \<times> log_entry list" where
  "single_providers [] k = (None, [])"
| "single_providers (pr # rest) k =
     (case p_resolve pr k of
        Throws e \<Rightarrow> (case single_providers rest k of (r, lg) \<Rightarrow> (r, Resolve_failed k (p_name pr) e # lg))
      | Returns None \<Rightarrow> single_providers rest k
      | Returns (Some v) \<Rightarrow> (Some v, []))"

fun single_placeholders ::
  "provider list \<Rightarrow> (jsstring \<times> jsstring) list \<Rightarrow> (jsstring \<times> jsstring) list
     \<Rightarrow> (jsstring \<times> jsstring) list \<times> log_entry list" where
  "single_placeholders provs [] repl = (repl, [])"
| "single_placeholders provs (p # rest) repl =
     (case single_providers provs (fst p) of
        (resolved, lg) \<Rightarrow>
          (case single_placeholders provs rest
                  (case resolved of None \<Rightarrow> repl | Some v \<Rightarrow> AList.update (snd p) v repl) of
             (r, lg') \<Rightarrow> (r, lg @ lg')))"

definition resolveSingle :: "provider list \<Rightarrow> jsstring \<Rightarrow> jsstring \<times> log_entry list" where
  "resolveSingle provs content =
     (case single_placeholders provs (extractPlaceholders content) [] of
        (repl, lg) \<Rightarrow> (apply_replacements repl content, lg))"

text \<open>\<open>resolveAll\<close>: the result, or the error the call fails with, and the log.\<close>

definition resolveAll ::
  "VariableEngineOptions \<Rightarrow> provider list \<Rightarrow> jsstring \<Rightarrow> (js_error + jsstring) \<times> log_entry list" where
  "resolveAll opts provs content =
     (if content = [] then (Inr [], [])
      else if enableRecursion opts then
        (case resolveRecursive opts provs content [] 0 of (r, st, lg) \<Rightarrow> (r, lg))
      else (case resolveSingle provs content of (c, lg) \<Rightarrow> (Inr c, lg)))"

text \<open>\<open>PlaceholderProvider\<close> (providers/PlaceholderProvider.ts) over a map of values.\<close>

definition PlaceholderProvider :: "(jsstring \<times> jsstring) list \<Rightarrow> provider" where
  "PlaceholderProvider placeholders =
     \<lparr> p_name = str ''PlaceholderProvider'',
       p_resolve = (\<lambda>k. Returns (case map_of placeholders k of
                                    None \<Rightarrow> None
                                  | Some v \<Rightarrow> if v = [] then None else Some v)) \<rparr>"

text \<open>
  The chain of the depth property: \<open>A1\<close> is \<open>{{A2}}\<close>, and so on up to \<open>A(N+1)\<close>, which is
  \<open>end\<close>. And the two variables of scenario S3.
\<close>

definition chain_name :: "nat \<Rightarrow> jsstring" where
  "chain_name i = str ''A'' @ digits i"

definition chain :: "nat \<Rightarrow> (jsstring \<times> jsstring) list" where
  "chain N = map (\<lambda>i. (chain_name i,
                        if i = Suc N then str ''end''
                        else str ''{{'' @ chain_name (Suc i) @ str ''}}'')) [1..<N + 2]"


declare resolveRecursive.simps [simp del]

subsection \<open>Properties of the engine\<close>

text \<open>
  An outcome is faithful when every detection of a cycle in its log is the error it
  ends with.
\<close>

definition faithful :: "(js_error + 'a) \<times> jsstring list \<times> log_entry list \<Rightarrow> bool" where
  "faithful out =
     (\<forall>st k. Circular_detected st k \<in> set (snd (snd out)) \<longrightarrow>
              fst out = Inl (circular_error st k) \<and> k \<in> set st)"

lemma faithful_quiet [simp]: "faithful (r, st, [])"
  by (simp add: faithful_def)

lemma is_circular_circular_error [simp]: "is_circular (circular_error st k)"
  by (simp add: circular_error_def)



















text \<open>The outcomes of the chains with \<open>N = 10\<close> and \<open>N = 9\<close>.\<close>

lemma chain_10:
  "resolveAll DEFAULT_OPTIONS [PlaceholderProvider (chain 10)] (str ''{{A1}}'') =
     (Inr (str ''{{A11}}''),
      [Resolve_failed (str ''A10'') (str ''PlaceholderProvider'')
         (depth_error DEFAULT_OPTIONS 10 (str ''{{A11}}''))])"
  by (simp add: resolveAll_def DEFAULT_OPTIONS_def PlaceholderProvider_def chain_def chain_name_def
      resolveRecursive.simps extractPlaceholders_def placeholder_matches.simps rx_exec.simps
      placeholderPattern_def MAX_PLACEHOLDERS_def apply_replacements_def replace_all.simps
      set_add_def set_delete_def depth_error_def digits.simps str_def is_word_def
      upt_conv_Cons substring_def)

lemma chain_9:
  "resolveAll DEFAULT_OPTIONS [PlaceholderProvider (chain 9)] (str ''{{A1}}'') =
     (Inr (str ''end''),
      [Resolve_failed (str ''A10'') (str ''PlaceholderProvider'')
         (depth_error DEFAULT_OPTIONS 10 (str ''end''))])"
  by (simp add: resolveAll_def DEFAULT_OPTIONS_def PlaceholderProvider_def chain_def chain_name_def
      resolveRecursive.simps extractPlaceholders_def placeholder_matches.simps rx_exec.simps
      placeholderPattern_def MAX_PLACEHOLDERS_def apply_replacements_def replace_all.simps
      set_add_def set_delete_def depth_error_def digits.simps str_def is_word_def
      upt_conv_Cons substring_def)

lemma chain_below_cap:
  assumes "N < 9"
  shows "resolveAll DEFAULT_OPTIONS [PlaceholderProvider (chain N)] (str ''{{A1}}'') = (Inr (str ''end''), [])"
proof -
  from assms have "N = 0 \<or> N = 1 \<or> N = 2 \<or> N = 3 \<or> N = 4 \<or> N = 5 \<or> N = 6 \<or> N = 7 \<or> N = 8"
    by arith
  then show ?thesis
    by (elim disjE)
       (simp_all add: resolveAll_def DEFAULT_OPTIONS_def PlaceholderProvider_def chain_def chain_name_def
          resolveRecursive.simps extractPlaceholders_def placeholder_matches.simps rx_exec.simps
          placeholderPattern_def MAX_PLACEHOLDERS_def apply_replacements_def replace_all.simps
          set_add_def set_delete_def depth_error_def digits.simps str_def is_word_def
          upt_conv_Cons substring_def)
qed

text \<open>
  Claim C6. With the default cap of 10, the chain with \<open>N = 9\<close> resolves to \<open>end\<close>, as
  every chain with a smaller \<open>N\<close> does. The claim says that the chain with \<open>N = 10\<close>
  fails with a max-recursion-depth error. The code throws that error at depth 10, but the
  \<open>catch\<close> of the provider loop one level up logs it and goes on: the call returns the
  text \<open>{{A11}}\<close>.
\<close>

theorem depth_cap_is_swallowed:
  "fst (resolveAll DEFAULT_OPTIONS [PlaceholderProvider (chain 10)] (str ''{{A1}}'')) = Inr (str ''{{A11}}'')
   \<and> snd (resolveAll DEFAULT_OPTIONS [PlaceholderProvider (chain 10)] (str ''{{A1}}'')) =
       [Resolve_failed (str ''A10'') (str ''PlaceholderProvider'')
          (VCPError MAX_RECURSION_DEPTH (str ''Maximum recursion depth of 10 exceeded'')
             [(str ''depth'', NVal 10), (str ''content'', SVal (str ''{{A11}}''))])]
   \<and> fst (resolveAll DEFAULT_OPTIONS [PlaceholderProvider (chain 9)] (str ''{{A1}}'')) = Inr (str ''end'')"
  by (simp add: chain_10 chain_9) (simp add: depth_error_def DEFAULT_OPTIONS_def digits.simps str_def substring_def)


section \<open>The file fetcher (FileFetcher.ts)\<close>

text \<open>
  The functions of the Node library that the fetcher calls are parameters: the SHA-256 of
  a path as hexadecimal digits, \<open>path.extname\<close>, \<open>path.join\<close>, \<open>toLowerCase\<close> and the
  decoding of base64.
\<close>

record node_lib =
  sha256_hex :: "jsstring \<Rightarrow> jsstring"
  extname :: "jsstring \<Rightarrow> jsstring"
  path_join :: "jsstring \<Rightarrow> jsstring \<Rightarrow> jsstring"
  toLowerCase :: "jsstring \<Rightarrow> jsstring"
  base64_decode :: "jsstring \<Rightarrow> nat list"

text \<open>What a worker answers to a \<open>fetch_file\<close> frame: nothing, or a \<open>file_result\<close> frame.\<close>

record file_result_frame =
  fr_success :: bool
  fr_content :: "jsstring option"
  fr_error :: "jsstring option"

datatype node_reply = Silent | Replied file_result_frame

datatype io_op = ReadFile jsstring | WriteFile jsstring | FetchRequest nat jsstring

text \<open>
  The world outside the fetcher: the files that can be read, with their bytes; the paths
  that can be written; the state of every socket and the answer of its worker to a
  request for a path; and the operations done so far, in order.
\<close>

record world =
  files :: "jsstring \<Rightarrow> nat list option"
  writable :: "jsstring \<Rightarrow> bool"
  socket_state :: "nat \<Rightarrow> ReadyState"
  worker_reply :: "nat \<Rightarrow> jsstring \<Rightarrow> node_reply"
  ops :: "io_op list"

datatype file_source = SrcLocal | SrcDistributed | SrcFetched

record FileResult =
  buffer :: "nat list"
  mimeType :: jsstring
  size_bytes :: nat
  fromCache :: bool
  source :: file_source

record FileFetcher =
  cacheDir :: jsstring
  linkedServers :: "(jsstring \<times> DistributedServerInfo) list option"
  hits :: nat
  misses :: nat

definition MIME_TYPES :: "(jsstring \<times> jsstring) list" where
  "MIME_TYPES =
     [(str ''.jpg'', str ''image/jpeg''), (str ''.jpeg'', str ''image/jpeg''),
      (str ''.png'', str ''image/png''), (str ''.gif'', str ''image/gif''),
      (str ''.webp'', str ''image/webp''), (str ''.svg'', str ''image/svg+xml''),
      (str ''.pdf'', str ''application/pdf''), (str ''.txt'', str ''text/plain''),
      (str ''.json'', str ''application/json''), (str ''.xml'', str ''application/xml''),
      (str ''.html'', str ''text/html''), (str ''.css'', str ''text/css''),
      (str ''.js'', str ''application/javascript'')]"

definition getMimeType :: "node_lib \<Rightarrow> jsstring \<Rightarrow> jsstring" where
  "getMimeType lib extension =
     (case map_of MIME_TYPES (toLowerCase lib extension) of
        Some t \<Rightarrow> t
      | None \<Rightarrow> str ''application/octet-stream'')"

text \<open>\<open>fs.readFile\<close> and \<open>fs.writeFile\<close>; the first gives no bytes when it fails.\<close>

definition readFile :: "jsstring \<Rightarrow> world \<Rightarrow> nat list option \<times> world" where
  "readFile p w = (files w p, w \<lparr> ops := ops w @ [ReadFile p] \<rparr>)"

definition writeFile :: "jsstring \<Rightarrow> nat list \<Rightarrow> world \<Rightarrow> bool \<times> world" where
  "writeFile p b w =
     (if writable w p then (True, w \<lparr> files := (files w)(p \<mapsto> b), ops := ops w @ [WriteFile p] \<rparr>)
      else (False, w \<lparr> ops := ops w @ [WriteFile p] \<rparr>))"

text \<open>The path of the cache file of a path: the cache directory, the key and the extension.\<close>

definition cachedFilePath :: "node_lib \<Rightarrow> FileFetcher \<Rightarrow> jsstring \<Rightarrow> jsstring" where
  "cachedFilePath lib ft filePath =
     path_join lib (cacheDir ft) (sha256_hex lib filePath @ extname lib filePath)"

definition fetchFromCache :: "node_lib \<Rightarrow> FileFetcher \<Rightarrow> jsstring \<Rightarrow> world \<Rightarrow> FileResult option \<times> world" where
  "fetchFromCache lib ft filePath w =
     (case readFile (cachedFilePath lib ft filePath) w of
        (None, w') \<Rightarrow> (None, w')
      | (Some b, w') \<Rightarrow>
          (Some \<lparr> buffer = b, mimeType = getMimeType lib (extname lib filePath),
                   size_bytes = length b, fromCache = True, source = SrcLocal \<rparr>, w'))"

definition fetchFromLocal :: "node_lib \<Rightarrow> jsstring \<Rightarrow> world \<Rightarrow> FileResult option \<times> world" where
  "fetchFromLocal lib filePath w =
     (case readFile filePath w of
        (None, w') \<Rightarrow> (None, w')
      | (Some b, w') \<Rightarrow>
          (Some \<lparr> buffer = b, mimeType = getMimeType lib (extname lib filePath),
                   size_bytes = length b, fromCache = False, source = SrcLocal \<rparr>, w'))"

text \<open>\<open>saveToCache\<close>: a write that fails is logged and nothing more.\<close>

definition saveToCache :: "node_lib \<Rightarrow> FileFetcher \<Rightarrow> jsstring \<Rightarrow> nat list \<Rightarrow> world \<Rightarrow> world" where
  "saveToCache lib ft filePath b w = snd (writeFile (cachedFilePath lib ft filePath) b w)"

text \<open>
  \<open>requestFileFromNode\<close>: the promise is resolved by the \<open>file_result\<close> frame of the
  request when it reports success and has content, and rejected by any other such frame,
  by the timer when no such frame comes in 30 seconds, and at once when the socket is not
  open. Frames of another type or of another request, and frames that do not parse, are
  passed over.
\<close>

definition requestFileFromNode ::
  "node_lib \<Rightarrow> DistributedServerInfo \<Rightarrow> jsstring \<Rightarrow> world \<Rightarrow> (js_error + FileResult) \<times> world" where
  "requestFileFromNode lib info filePath w =
     (if socket_state w (ws info) = OPEN then
        (let w' = w \<lparr> ops := ops w @ [FetchRequest (ws info) filePath] \<rparr>
         in case worker_reply w (ws info) filePath of
              Silent \<Rightarrow> (Inl (PlainError (str ''File fetch timeout'')), w')
            | Replied msg \<Rightarrow>
                if fr_success msg \<and> truthy (fr_content msg) then
                  (Inr \<lparr> buffer = base64_decode lib (the (fr_content msg)),
                          mimeType = getMimeType lib (extname lib filePath),
                          size_bytes = length (base64_decode lib (the (fr_content msg))),
                          fromCache = False, source = SrcDistributed \<rparr>, w')
                else (Inl (PlainError (if truthy (fr_error msg) then the (fr_error msg)
                                       else str ''File not found on distributed node'')), w'))
      else (Inl (PlainError (str ''Server connection not open'')), w))"

text \<open>The loop of \<open>fetchFromDistributedNode\<close> over the servers, in the order of the map.\<close>

fun request_each ::
  "node_lib \<Rightarrow> (jsstring \<times> DistributedServerInfo) list \<Rightarrow> jsstring \<Rightarrow> world \<Rightarrow> FileResult option \<times> world" where
  "request_each lib [] filePath w = (None, w)"
| "request_each lib (s # rest) filePath w =
     (case requestFileFromNode lib (snd s) filePath w of
        (Inr res, w') \<Rightarrow> (Some res, w')
      | (Inl e, w') \<Rightarrow> request_each lib rest filePath w')"

definition fetchFromDistributedNode ::
  "node_lib \<Rightarrow> FileFetcher \<Rightarrow> jsstring \<Rightarrow> world \<Rightarrow> FileResult option \<times> world" where
  "fetchFromDistributedNode lib ft filePath w =
     (case linkedServers ft of
        None \<Rightarrow> (None, w)
      | Some servers \<Rightarrow> if servers = [] then (None, w) else request_each lib servers filePath w)"

definition normalizePath :: "jsstring \<Rightarrow> jsstring" where
  "normalizePath filePath = (if take 7 filePath = str ''file://'' then drop 7 filePath else filePath)"

text \<open>
  \<open>fetchFile\<close>: the result or the error thrown, the fetcher with its counters, and the
  world.
\<close>

definition fetchFile ::
  "node_lib \<Rightarrow> FileFetcher \<Rightarrow> jsstring \<Rightarrow> world \<Rightarrow> (js_error + FileResult) \<times> FileFetcher \<times> world" where
  "fetchFile lib ft filePath w =
     (let normalizedPath = normalizePath filePath
      in case fetchFromCache lib ft normalizedPath w of
           (Some cached, w1) \<Rightarrow> (Inr cached, ft \<lparr> hits := Suc (hits ft) \<rparr>, w1)
         | (None, w1) \<Rightarrow>
             (let ft1 = ft \<lparr> misses := Suc (misses ft) \<rparr>
              in case fetchFromLocal lib normalizedPath w1 of
                   (Some local, w2) \<Rightarrow>
                     (Inr local, ft1, saveToCache lib ft1 normalizedPath (buffer local) w2)
                 | (None, w2) \<Rightarrow>
                     (case (if linkedServers ft1 \<noteq> None \<and> the (linkedServers ft1) \<noteq> []
                            then fetchFromDistributedNode lib ft1 normalizedPath w2
                            else (None, w2)) of
                        (Some distributed, w3) \<Rightarrow>
                          (Inr distributed, ft1,
                           saveToCache lib ft1 normalizedPath (buffer distributed) w3)
                      | (None, w3) \<Rightarrow>
                          (Inl (VCPError TOOL_EXECUTION_FAILED
                                  (str ''Failed to fetch file: '' @ normalizedPath)
                                  [(str ''filePath'', SVal normalizedPath)]), ft1, w3))))"

subsection \<open>A fetcher with two workers\<close>

text \<open>
  A library for the examples: every key is \<open>2c26b4\<close>, the extension is the last four
  characters, \<open>join\<close> puts a slash between its arguments, and lower case and base64 leave
  their argument as it is.
\<close>

definition example_lib :: node_lib where
  "example_lib =
     \<lparr> sha256_hex = (\<lambda>p. str ''2c26b4''),
       extname = (\<lambda>p. drop (length p - 4) p),
       path_join = (\<lambda>d f. d @ str ''/'' @ f),
       toLowerCase = (\<lambda>s. s),
       base64_decode = (\<lambda>s. s) \<rparr>"

definition example_fetcher :: FileFetcher where
  "example_fetcher =
     \<lparr> cacheDir = str ''./file_cache'',
       linkedServers = Some
         [(str ''node-1'', \<lparr> serverId = str ''node-1'', ws = 1, tools = [],
                               serverName = str ''one'', connectedAt = 0, lastActivity = 0 \<rparr>),
          (str ''node-2'', \<lparr> serverId = str ''node-2'', ws = 2, tools = [],
                               serverName = str ''two'', connectedAt = 0, lastActivity = 0 \<rparr>)],
       hits = 0, misses = 0 \<rparr>"

definition example_path :: jsstring where
  "example_path = str ''/data/a.png''"

definition example_cache_path :: jsstring where
  "example_cache_path = str ''./file_cache/2c26b4.png''"

text \<open>
  Four worlds: the file is in the cache; it is only on the local disk; it is only on the
  second worker, the socket of the first being closed; it is nowhere, the second worker
  never answering.
\<close>

definition empty_world :: world where
  "empty_world =
     \<lparr> files = (\<lambda>p. None), writable = (\<lambda>p. True),
       socket_state = (\<lambda>n. if n = 2 then OPEN else CLOSED),
       worker_reply = (\<lambda>n p. Silent), ops = [] \<rparr>"

definition cached_world :: world where
  "cached_world = empty_world \<lparr> files := [example_cache_path \<mapsto> [1, 2, 3]] \<rparr>"

definition local_world :: world where
  "local_world = empty_world \<lparr> files := [example_path \<mapsto> [4, 5]] \<rparr>"

definition remote_world :: world where
  "remote_world = empty_world
     \<lparr> worker_reply := (\<lambda>n p. Replied \<lparr> fr_success = True, fr_content = Some [6, 7, 8, 9],
                                            fr_error = None \<rparr>) \<rparr>"

definition example_error :: js_error where
  "example_error = VCPError TOOL_EXECUTION_FAILED (str ''Failed to fetch file: /data/a.png'')
     [(str ''filePath'', SVal (str ''/data/a.png''))]"

subsection \<open>Properties of the fetcher\<close>

lemma request_each_source:
  "request_each lib servers filePath w = (Some res, w') \<Longrightarrow>
     source res = SrcDistributed \<and> fromCache res = False"
proof (induction servers arbitrary: w)
  case Nil
  then show ?case by simp
next
  case (Cons s rest)
  obtain r w1 where R: "requestFileFromNode lib (snd s) filePath w = (r, w1)"
    by (cases "requestFileFromNode lib (snd s) filePath w") auto
  show ?case
  proof (cases r)
    case (Inl e)
    then show ?thesis using Cons R by simp
  next
    case (Inr x)
    then have "x = res" using Cons.prems R by simp
    then show ?thesis using R Inr
      by (auto simp add: requestFileFromNode_def Let_def split: if_splits node_reply.splits)
  qed
qed

lemma distributed_layer:
  "(if linkedServers ft \<noteq> None \<and> the (linkedServers ft) \<noteq> []
    then fetchFromDistributedNode lib ft p w else (None, w)) = fetchFromDistributedNode lib ft p w"
  by (auto simp add: fetchFromDistributedNode_def split: option.splits)

lemma distributed_source:
  "fetchFromDistributedNode lib ft p w = (Some res, w') \<Longrightarrow>
     source res = SrcDistributed \<and> fromCache res = False"
  by (auto simp add: fetchFromDistributedNode_def split: option.splits if_splits
      dest: request_each_source)

text \<open>
  Claim C8. For every path, \<open>fetchFile\<close> tries the three layers in order: the cache
  directory, then the local file system, then the connected workers, and returns at the
  first layer that has the file. The path is the argument without a leading \<open>file://\<close>.
  When the cache file of the path can be read, the result has its bytes with
  \<open>fromCache = True\<close> and source local, the hit counter is incremented, and the read of the
  cache file is the only operation. When only the path itself can be read, the result has
  its bytes with source local, and the bytes are written to the cache file after the two
  reads; where that file can be written, the next \<open>fetchFile\<close> of the path is a cache hit
  with the same bytes. When neither can be read and a worker sends the file, the result is
  the one of the first such worker in the order of the map, with source distributed, and
  it is written to the cache file. When no layer has the file, the call throws a
  \<open>VCPError\<close> with the code \<open>TOOL_EXECUTION_FAILED\<close> whose message and details name the
  path.
\<close>

theorem fetchFile_layers:
  "(files w (cachedFilePath lib ft (normalizePath fp)) = Some b \<longrightarrow>
      fetchFile lib ft fp w =
        (Inr \<lparr> buffer = b, mimeType = getMimeType lib (extname lib (normalizePath fp)),
                size_bytes = length b, fromCache = True, source = SrcLocal \<rparr>,
         ft \<lparr> hits := Suc (hits ft) \<rparr>,
         w \<lparr> ops := ops w @ [ReadFile (cachedFilePath lib ft (normalizePath fp))] \<rparr>))
   \<and> (files w (cachedFilePath lib ft (normalizePath fp)) = None
        \<and> files w (normalizePath fp) = Some b \<longrightarrow>
      fetchFile lib ft fp w =
        (Inr \<lparr> buffer = b, mimeType = getMimeType lib (extname lib (normalizePath fp)),
                size_bytes = length b, fromCache = False, source = SrcLocal \<rparr>,
         ft \<lparr> misses := Suc (misses ft) \<rparr>,
         snd (writeFile (cachedFilePath lib ft (normalizePath fp)) b
                (w \<lparr> ops := ops w @ [ReadFile (cachedFilePath lib ft (normalizePath fp)),
                                       ReadFile (normalizePath fp)] \<rparr>))))
   \<and> (files w (cachedFilePath lib ft (normalizePath fp)) = None
        \<and> files w (normalizePath fp) = None
        \<and> fetchFromDistributedNode lib ft (normalizePath fp)
             (w \<lparr> ops := ops w @ [ReadFile (cachedFilePath lib ft (normalizePath fp)),
                                    ReadFile (normalizePath fp)] \<rparr>) = (Some res, w') \<longrightarrow>
      fetchFile lib ft fp w =
        (Inr res, ft \<lparr> misses := Suc (misses ft) \<rparr>,
         snd (writeFile (cachedFilePath lib ft (normalizePath fp)) (buffer res) w'))
      \<and> source res = SrcDistributed \<and> fromCache res = False)
   \<and> (files w (cachedFilePath lib ft (normalizePath fp)) = None
        \<and> files w (normalizePath fp) = None
        \<and> fetchFromDistributedNode lib ft (normalizePath fp)
             (w \<lparr> ops := ops w @ [ReadFile (cachedFilePath lib ft (normalizePath fp)),
                                    ReadFile (normalizePath fp)] \<rparr>) = (None, w') \<longrightarrow>
      fetchFile lib ft fp w =
        (Inl (VCPError TOOL_EXECUTION_FAILED (str ''Failed to fetch file: '' @ normalizePath fp)
                [(str ''filePath'', SVal (normalizePath fp))]),
         ft \<lparr> misses := Suc (misses ft) \<rparr>, w'))
   \<and> (files w (cachedFilePath lib ft (normalizePath fp)) = None
        \<and> files w (normalizePath fp) = Some b
        \<and> writable w (cachedFilePath lib ft (normalizePath fp)) \<longrightarrow>
      fst (fetchFile lib (fst (snd (fetchFile lib ft fp w))) fp (snd (snd (fetchFile lib ft fp w)))) =
        Inr \<lparr> buffer = b, mimeType = getMimeType lib (extname lib (normalizePath fp)),
               size_bytes = length b, fromCache = True, source = SrcLocal \<rparr>)"
proof -
  let ?p = "normalizePath fp"
  let ?cp = "cachedFilePath lib ft ?p"
  let ?ft1 = "ft \<lparr> misses := Suc (misses ft) \<rparr>"
  have k: "cachedFilePath lib ?ft1 ?p = ?cp" by (simp add: cachedFilePath_def)
  have l: "fetchFromDistributedNode lib ?ft1 = fetchFromDistributedNode lib ft"
    by (simp add: fetchFromDistributedNode_def fun_eq_iff)
  have a: "files w ?cp = Some b \<longrightarrow>
      fetchFile lib ft fp w =
        (Inr \<lparr> buffer = b, mimeType = getMimeType lib (extname lib ?p),
                size_bytes = length b, fromCache = True, source = SrcLocal \<rparr>,
         ft \<lparr> hits := Suc (hits ft) \<rparr>, w \<lparr> ops := ops w @ [ReadFile ?cp] \<rparr>)"
    by (simp add: fetchFile_def fetchFromCache_def readFile_def Let_def)
  have b: "files w ?cp = None \<and> files w ?p = Some b \<longrightarrow>
      fetchFile lib ft fp w =
        (Inr \<lparr> buffer = b, mimeType = getMimeType lib (extname lib ?p),
                size_bytes = length b, fromCache = False, source = SrcLocal \<rparr>,
         ?ft1, snd (writeFile ?cp b (w \<lparr> ops := ops w @ [ReadFile ?cp, ReadFile ?p] \<rparr>)))"
    by (simp add: fetchFile_def fetchFromCache_def fetchFromLocal_def readFile_def Let_def
        saveToCache_def k)
  have c: "files w ?cp = None \<and> files w ?p = None
        \<and> fetchFromDistributedNode lib ft ?p (w \<lparr> ops := ops w @ [ReadFile ?cp, ReadFile ?p] \<rparr>)
            = (Some res, w') \<longrightarrow>
      fetchFile lib ft fp w = (Inr res, ?ft1, snd (writeFile ?cp (buffer res) w'))
      \<and> source res = SrcDistributed \<and> fromCache res = False"
    unfolding fetchFile_def distributed_layer
    by (auto simp add: fetchFromCache_def fetchFromLocal_def readFile_def Let_def
        saveToCache_def k l dest: distributed_source)
  have d: "files w ?cp = None \<and> files w ?p = None
        \<and> fetchFromDistributedNode lib ft ?p (w \<lparr> ops := ops w @ [ReadFile ?cp, ReadFile ?p] \<rparr>)
            = (None, w') \<longrightarrow>
      fetchFile lib ft fp w =
        (Inl (VCPError TOOL_EXECUTION_FAILED (str ''Failed to fetch file: '' @ ?p)
                [(str ''filePath'', SVal ?p)]), ?ft1, w')"
    unfolding fetchFile_def distributed_layer
    by (simp add: fetchFromCache_def fetchFromLocal_def readFile_def Let_def l)
  have e: "files w ?cp = None \<and> files w ?p = Some b \<and> writable w ?cp \<longrightarrow>
      fst (fetchFile lib (fst (snd (fetchFile lib ft fp w))) fp (snd (snd (fetchFile lib ft fp w)))) =
        Inr \<lparr> buffer = b, mimeType = getMimeType lib (extname lib ?p),
               size_bytes = length b, fromCache = True, source = SrcLocal \<rparr>"
  proof
    assume h: "files w ?cp = None \<and> files w ?p = Some b \<and> writable w ?cp"
    let ?W = "snd (writeFile ?cp b (w \<lparr> ops := ops w @ [ReadFile ?cp, ReadFile ?p] \<rparr>))"
    from h b have s: "fetchFile lib ft fp w =
        (Inr \<lparr> buffer = b, mimeType = getMimeType lib (extname lib ?p),
                size_bytes = length b, fromCache = False, source = SrcLocal \<rparr>, ?ft1, ?W)"
      by simp
    from h have f: "files ?W ?cp = Some b" by (simp add: writeFile_def)
    show "fst (fetchFile lib (fst (snd (fetchFile lib ft fp w))) fp (snd (snd (fetchFile lib ft fp w)))) =
        Inr \<lparr> buffer = b, mimeType = getMimeType lib (extname lib ?p),
               size_bytes = length b, fromCache = True, source = SrcLocal \<rparr>"
      unfolding s using f
      by (simp add: fetchFile_def fetchFromCache_def readFile_def Let_def k)
  qed
  from a b c d e show ?thesis by blast
qed

lemma example_paths:
  "normalizePath (str ''file:///data/a.png'') = example_path"
  "cachedFilePath example_lib example_fetcher example_path = example_cache_path"
  "getMimeType example_lib (extname example_lib example_path) = str ''image/png''"
  "example_cache_path \<noteq> example_path"
  by (simp_all add: normalizePath_def cachedFilePath_def getMimeType_def MIME_TYPES_def
      example_lib_def example_fetcher_def example_path_def example_cache_path_def str_def)

lemma example_remote:
  "fetchFromDistributedNode example_lib example_fetcher example_path
     (remote_world \<lparr> ops := [ReadFile example_cache_path, ReadFile example_path] \<rparr>) =
   (Some \<lparr> buffer = [6, 7, 8, 9], mimeType = str ''image/png'', size_bytes = 4,
             fromCache = False, source = SrcDistributed \<rparr>,
    remote_world \<lparr> ops := [ReadFile example_cache_path, ReadFile example_path,
                             FetchRequest 2 example_path] \<rparr>)"
  using example_paths(3)
  by (simp add: fetchFromDistributedNode_def requestFileFromNode_def example_fetcher_def
      remote_world_def empty_world_def Let_def)
     (simp add: example_lib_def)

lemma example_nowhere:
  "fetchFromDistributedNode example_lib example_fetcher example_path
     (empty_world \<lparr> ops := [ReadFile example_cache_path, ReadFile example_path] \<rparr>) =
   (None, empty_world \<lparr> ops := [ReadFile example_cache_path, ReadFile example_path,
                                    FetchRequest 2 example_path] \<rparr>)"
  by (simp add: fetchFromDistributedNode_def requestFileFromNode_def example_fetcher_def
      empty_world_def Let_def)

theorem fetchFile_layers_witness:
  "fetchFile example_lib example_fetcher (str ''file:///data/a.png'') cached_world =
     (Inr \<lparr> buffer = [1, 2, 3], mimeType = str ''image/png'', size_bytes = 3,
             fromCache = True, source = SrcLocal \<rparr>,
      example_fetcher \<lparr> hits := 1 \<rparr>,
      cached_world \<lparr> ops := [ReadFile example_cache_path] \<rparr>)
   \<and> fetchFile example_lib example_fetcher (str ''file:///data/a.png'') local_world =
     (Inr \<lparr> buffer = [4, 5], mimeType = str ''image/png'', size_bytes = 2,
             fromCache = False, source = SrcLocal \<rparr>,
      example_fetcher \<lparr> misses := 1 \<rparr>,
      local_world \<lparr> files := [example_path \<mapsto> [4, 5], example_cache_path \<mapsto> [4, 5]],
                      ops := [ReadFile example_cache_path, ReadFile example_path,
                              WriteFile example_cache_path] \<rparr>)
   \<and> fetchFile example_lib example_fetcher (str ''file:///data/a.png'') remote_world =
     (Inr \<lparr> buffer = [6, 7, 8, 9], mimeType = str ''image/png'', size_bytes = 4,
             fromCache = False, source = SrcDistributed \<rparr>,
      example_fetcher \<lparr> misses := 1 \<rparr>,
      remote_world \<lparr> files := [example_cache_path \<mapsto> [6, 7, 8, 9]],
                       ops := [ReadFile example_cache_path, ReadFile example_path,
                               FetchRequest 2 example_path, WriteFile example_cache_path] \<rparr>)
   \<and> fetchFile example_lib example_fetcher (str ''file:///data/a.png'') empty_world =
     (Inl example_error, example_fetcher \<lparr> misses := 1 \<rparr>,
      empty_world \<lparr> ops := [ReadFile example_cache_path, ReadFile example_path,
                              FetchRequest 2 example_path] \<rparr>)"
proof -
  note p = example_paths
  have w1: "cached_world \<lparr> ops := ops cached_world @ [ReadFile example_cache_path] \<rparr> =
            cached_world \<lparr> ops := [ReadFile example_cache_path] \<rparr>"
    by (simp add: cached_world_def empty_world_def)
  have a: "fetchFile example_lib example_fetcher (str ''file:///data/a.png'') cached_world =
     (Inr \<lparr> buffer = [1, 2, 3], mimeType = str ''image/png'', size_bytes = 3,
             fromCache = True, source = SrcLocal \<rparr>,
      example_fetcher \<lparr> hits := 1 \<rparr>,
      cached_world \<lparr> ops := [ReadFile example_cache_path] \<rparr>)"
  proof -
    have f: "files cached_world example_cache_path = Some [1, 2, 3]"
      by (simp add: cached_world_def)
    have h: "Suc (hits example_fetcher) = 1" by (simp add: example_fetcher_def)
    from fetchFile_layers [of cached_world example_lib example_fetcher "str ''file:///data/a.png''"
        "[1, 2, 3]"]
    show ?thesis by (simp add: p w1 f h)
  qed
  have b: "fetchFile example_lib example_fetcher (str ''file:///data/a.png'') local_world =
     (Inr \<lparr> buffer = [4, 5], mimeType = str ''image/png'', size_bytes = 2,
             fromCache = False, source = SrcLocal \<rparr>,
      example_fetcher \<lparr> misses := 1 \<rparr>,
      local_world \<lparr> files := [example_path \<mapsto> [4, 5], example_cache_path \<mapsto> [4, 5]],
                      ops := [ReadFile example_cache_path, ReadFile example_path,
                              WriteFile example_cache_path] \<rparr>)"
  proof -
    have f: "files local_world example_cache_path = None" "files local_world example_path = Some [4, 5]"
      using p(4) by (simp_all add: local_world_def empty_world_def)
    from fetchFile_layers [of local_world example_lib example_fetcher "str ''file:///data/a.png''"
        "[4, 5]"]
    have "fetchFile example_lib example_fetcher (str ''file:///data/a.png'') local_world =
        (Inr \<lparr> buffer = [4, 5], mimeType = str ''image/png'', size_bytes = 2,
             fromCache = False, source = SrcLocal \<rparr>,
         example_fetcher \<lparr> misses := Suc (misses example_fetcher) \<rparr>,
         snd (writeFile example_cache_path [4, 5]
            (local_world \<lparr> ops := ops local_world @ [ReadFile example_cache_path,
                                                        ReadFile example_path] \<rparr>)))"
      by (simp add: p f)
    then show ?thesis
      by (simp add: local_world_def empty_world_def example_fetcher_def writeFile_def)
  qed
  have c: "fetchFile example_lib example_fetcher (str ''file:///data/a.png'') remote_world =
     (Inr \<lparr> buffer = [6, 7, 8, 9], mimeType = str ''image/png'', size_bytes = 4,
             fromCache = False, source = SrcDistributed \<rparr>,
      example_fetcher \<lparr> misses := 1 \<rparr>,
      remote_world \<lparr> files := [example_cache_path \<mapsto> [6, 7, 8, 9]],
                       ops := [ReadFile example_cache_path, ReadFile example_path,
                               FetchRequest 2 example_path, WriteFile example_cache_path] \<rparr>)"
  proof -
    have o: "remote_world \<lparr> ops := ops remote_world @ [ReadFile example_cache_path,
               ReadFile example_path] \<rparr> =
             remote_world \<lparr> ops := [ReadFile example_cache_path, ReadFile example_path] \<rparr>"
      by (simp add: remote_world_def empty_world_def)
    have f: "files remote_world example_cache_path = None" "files remote_world example_path = None"
      by (simp_all add: remote_world_def empty_world_def)
    from fetchFile_layers [of remote_world example_lib example_fetcher "str ''file:///data/a.png''"
        _ "\<lparr> buffer = [6, 7, 8, 9], mimeType = str ''image/png'', size_bytes = 4,
             fromCache = False, source = SrcDistributed \<rparr>"
        "remote_world \<lparr> ops := [ReadFile example_cache_path, ReadFile example_path,
                             FetchRequest 2 example_path] \<rparr>"]
    have "fetchFile example_lib example_fetcher (str ''file:///data/a.png'') remote_world =
        (Inr \<lparr> buffer = [6, 7, 8, 9], mimeType = str ''image/png'', size_bytes = 4,
             fromCache = False, source = SrcDistributed \<rparr>,
         example_fetcher \<lparr> misses := Suc (misses example_fetcher) \<rparr>,
         snd (writeFile example_cache_path [6, 7, 8, 9]
            (remote_world \<lparr> ops := [ReadFile example_cache_path, ReadFile example_path,
                             FetchRequest 2 example_path] \<rparr>)))"
      by (simp add: p o f example_remote)
    then show ?thesis
      by (simp add: remote_world_def empty_world_def example_fetcher_def writeFile_def)
  qed
  have d: "fetchFile example_lib example_fetcher (str ''file:///data/a.png'') empty_world =
     (Inl example_error, example_fetcher \<lparr> misses := 1 \<rparr>,
      empty_world \<lparr> ops := [ReadFile example_cache_path, ReadFile example_path,
                              FetchRequest 2 example_path] \<rparr>)"
  proof -
    have o: "empty_world \<lparr> ops := ops empty_world @ [ReadFile example_cache_path,
               ReadFile example_path] \<rparr> =
             empty_world \<lparr> ops := [ReadFile example_cache_path, ReadFile example_path] \<rparr>"
      by (simp add: empty_world_def)
    have f: "files empty_world example_cache_path = None" "files empty_world example_path = None"
      by (simp_all add: empty_world_def)
    have m: "str ''Failed to fetch file: '' @ example_path = str ''Failed to fetch file: /data/a.png''"
      by (simp add: example_path_def str_def)
    from fetchFile_layers [of empty_world example_lib example_fetcher "str ''file:///data/a.png''"
        _ _ "empty_world \<lparr> ops := [ReadFile example_cache_path, ReadFile example_path,
                             FetchRequest 2 example_path] \<rparr>"]
    show ?thesis
      by (simp add: p o f m example_nowhere example_error_def)
         (simp add: example_path_def example_fetcher_def)
  qed
  from a b c d show ?thesis by simp
qed

end
